theory Spec2Isabelle
  imports Complex_Main "HOL-Library.Word"
begin

section \<open>kitty/gl.h: the Python binding over OpenGL\<close>

text \<open>
  A shallow embedding of \<^verbatim>\<open>kitty/gl.h\<close>. Every wrapper of the file is a function from
  the Python argument and the state of the process to a result (\<open>None\<close> is the C
  \<^verbatim>\<open>NULL\<close> return) and the new state. The OpenGL driver and GLEW are outside the file:
  they are a parameter of the model, a function from a native call and an abstract driver
  state to a reply and the next driver state. CPython's API is outside the file as well;
  the few functions of it that the wrappers use are modelled from CPython's documentation
  for an LP64 platform (\<^verbatim>\<open>int\<close> is 32 bits, \<^verbatim>\<open>long\<close> and pointers are 64 bits).
\<close>

subsection \<open>Python values and the error indicator\<close>

datatype pyobj =
    PyNone
  | PyBool bool
  | PyLong int
  | PyFloat real
  | PyUnicode string
  | PyBytes string
  | PyTuple "pyobj list"

datatype pyexc =
  ValueError | TypeError | MemoryError | OverflowError | RuntimeError | SystemError

type_synonym pyerr = "pyexc \<times> string"

subsection \<open>Native calls\<close>

text \<open>The OpenGL and GLEW entry points that the file calls.\<close>

datatype gl_fn =
    glGetError | glViewport | glClearColor
  | glUniform2ui | glUniform1i | glUniform2f | glUniform4f | glUniform3fv
  | glewInit | glGetString | glClear
  | glDrawArrays | glMultiDrawArrays | glDrawArraysInstanced
  | glCreateProgram | glAttachShader | glLinkProgram
  | glGetProgramiv | glGetProgramInfoLog | glGetShaderiv | glGetShaderInfoLog
  | glActiveTexture | glDeleteProgram | glDeleteShader
  | glGenVertexArrays | glGenTextures | glGenBuffers
  | glCreateShader | glShaderSource | glCompileShader
  | glGetUniformLocation | glGetAttribLocation
  | glUseProgram | glBindVertexArray | glGetIntegerv | glBindTexture
  | glTexStorage3D | glCopyImageSubData | glGetTexImage | glPixelStorei
  | glTexSubImage3D | glNamedBufferData | glBindBuffer | glBufferData
  | glTexParameteri | glTexBuffer | glDeleteTextures | glDeleteBuffers
  | glBlendFunc | glEnable | glDisable | glEnableVertexAttribArray
  | glVertexAttribPointer

text \<open>
  An argument of a native call, after C's implicit conversion to the parameter's type:
  a 32-bit integer (\<^verbatim>\<open>GLint\<close>, \<^verbatim>\<open>GLuint\<close>, \<^verbatim>\<open>GLenum\<close>, \<^verbatim>\<open>GLsizei\<close>,
  \<^verbatim>\<open>GLbitfield\<close>, \<^verbatim>\<open>GLboolean\<close>), a 64-bit integer (\<^verbatim>\<open>GLsizeiptr\<close>), a float, a raw
  address, a C string, or a buffer of the wrapper's own (a \<^verbatim>\<open>GLchar\<close> buffer, a
  \<^verbatim>\<open>GLuint\<close> array, the cell of an \<^verbatim>\<open>int\<close> out parameter) with its contents at the call.
\<close>

datatype garg =
    I32 "32 word"
  | I64 "64 word"
  | F32 real
  | Ptr "64 word"
  | CStr string
  | Buf string
  | Arr "32 word list"
  | Cell "32 word"

text \<open>
  What a native call gives back: its return value (0 for a \<^verbatim>\<open>void\<close> function), the string
  it returns a pointer to (\<open>None\<close> is \<^verbatim>\<open>NULL\<close>), and what it left in the wrapper's out
  parameters: the value of the integer cell after the call (the value passed in when the
  driver did not store), the bytes written from the start of the character buffer, the
  handles written from the start of the handle array.
\<close>

record gl_reply =
  r_val :: "32 word"
  r_str :: "string option"
  r_cell :: "32 word"
  r_bytes :: string
  r_handles :: "32 word list"

type_synonym 'd driver = "gl_fn \<Rightarrow> garg list \<Rightarrow> 'd \<Rightarrow> gl_reply \<times> 'd"

text \<open>
  What is fixed when the file is compiled and what GLEW publishes in global variables:
  the platform, the two macros tested with \<^verbatim>\<open>#ifdef\<close>, the driver, the
  \<^verbatim>\<open>GLEW_ARB_*\<close> and \<^verbatim>\<open>GLEW_VERSION_4_5\<close> variables (read from the driver state) and
  \<^verbatim>\<open>glewGetErrorString\<close>.
\<close>

record 'd env =
  apple :: bool
  defined_glCopyImageSubData :: bool
  defined_glNamedBufferData :: bool
  gl :: "'d driver"
  GLEW_ARB_texture_storage :: "'d \<Rightarrow> bool"
  GLEW_ARB_texture_buffer_object_rgb32 :: "'d \<Rightarrow> bool"
  GLEW_ARB_copy_image :: "'d \<Rightarrow> bool"
  GLEW_VERSION_4_5 :: "'d \<Rightarrow> bool"
  glewGetErrorString :: "32 word \<Rightarrow> string"

subsection \<open>The state of the process\<close>

text \<open>
  An event of the trace: a native call with its arguments, whether the calling thread held
  the interpreter lock (the GIL) when it was made, and the driver's reply; an allocation of
  a scratch buffer of the given size with \<^verbatim>\<open>PyMem_Calloc\<close> or \<^verbatim>\<open>PyMem_Malloc\<close>; its
  release with \<^verbatim>\<open>PyMem_Free\<close>; a call of \<^verbatim>\<open>PyModule_AddIntConstant\<close> with the name, the
  value and whether it succeeded.
\<close>

datatype ev =
    Native gl_fn "garg list" bool gl_reply
  | MemAlloc nat
  | MemFree
  | AddIntConstant string int bool

text \<open>
  \<open>enable_error_checking\<close> is the file's \<^verbatim>\<open>static int _enable_error_checking\<close>.
  \<open>py_err\<close> is CPython's error indicator, \<open>gil_held\<close> the interpreter lock,
  \<open>mem_plan\<close> the outcome of the coming allocations of the Python heap, in order
  (\<open>True\<close> succeeds; past the end of the list every allocation succeeds), \<open>live\<close> the
  number of scratch buffers allocated and not freed, \<open>events\<close> the trace, oldest first.
  \<open>crashed\<close> is set when a call leaves the behaviour that C and CPython define: an
  exception set by a thread that does not hold the lock (the thread state it reads is
  \<^verbatim>\<open>NULL\<close> and the process is killed), or an access outside an allocated block. The call
  does not return then; the model stops it there, with the result \<open>None\<close>, and follows
  the process no further.
\<close>

record 'd world =
  enable_error_checking :: int
  py_err :: "pyerr option"
  gil_held :: bool
  mem_plan :: "bool list"
  live :: nat
  events :: "ev list"
  driver :: 'd
  crashed :: bool

text \<open>\<^verbatim>\<open>static int _enable_error_checking = 1;\<close> and an interpreter that has just loaded
  the module.\<close>

definition module_load :: "'d \<Rightarrow> 'd world" where
  "module_load d =
     \<lparr>enable_error_checking = 1, py_err = None, gil_held = True, mem_plan = [],
      live = 0, events = [], driver = d, crashed = False\<rparr>"

definition native :: "'d env \<Rightarrow> gl_fn \<Rightarrow> garg list \<Rightarrow> 'd world \<Rightarrow> gl_reply \<times> 'd world" where
  "native e f as w =
     (let (r, d') = gl e f as (driver w)
      in (r, w\<lparr>driver := d', events := events w @ [Native f as (gil_held w) r]\<rparr>))"

definition Py_BEGIN_ALLOW_THREADS :: "'d world \<Rightarrow> 'd world" where
  "Py_BEGIN_ALLOW_THREADS w = w\<lparr>gil_held := False\<rparr>"

definition Py_END_ALLOW_THREADS :: "'d world \<Rightarrow> 'd world" where
  "Py_END_ALLOW_THREADS w = w\<lparr>gil_held := True\<rparr>"

definition PyErr_SetString :: "pyexc \<Rightarrow> string \<Rightarrow> 'd world \<Rightarrow> 'd world" where
  "PyErr_SetString x msg w = w\<lparr>py_err := Some (x, msg)\<rparr>"

definition PyErr_Occurred :: "'d world \<Rightarrow> bool" where
  "PyErr_Occurred w = (py_err w \<noteq> None)"

definition PyErr_NoMemory :: "'d world \<Rightarrow> pyobj option \<times> 'd world" where
  "PyErr_NoMemory w = (None, w\<lparr>py_err := Some (MemoryError, [])\<rparr>)"

definition Py_RETURN_NONE :: "'d world \<Rightarrow> pyobj option \<times> 'd world" where
  "Py_RETURN_NONE w = (Some PyNone, w)"

text \<open>One allocation of the Python heap: it consumes the head of the plan.\<close>

definition py_alloc :: "'d world \<Rightarrow> bool \<times> 'd world" where
  "py_alloc w =
     (case mem_plan w of
        [] \<Rightarrow> (True, w)
      | ok # rest \<Rightarrow> (ok, w\<lparr>mem_plan := rest\<rparr>))"

subsection \<open>CPython's conversions\<close>

text \<open>\<^verbatim>\<open>PyLong_Check\<close> and the value: \<^verbatim>\<open>bool\<close> is a subclass of \<^verbatim>\<open>int\<close>.\<close>

fun as_int :: "pyobj \<Rightarrow> int option" where
  "as_int (PyLong i) = Some i"
| "as_int (PyBool b) = Some (if b then 1 else 0)"
| "as_int _ = None"

text \<open>
  \<^verbatim>\<open>PyLong_AsUnsignedLong\<close>: the value of a Python integer in the range of
  \<^verbatim>\<open>unsigned long\<close>; otherwise it sets an exception and returns
  \<^verbatim>\<open>(unsigned long)-1\<close>.
\<close>

definition PyLong_AsUnsignedLong :: "pyobj \<Rightarrow> 'd world \<Rightarrow> 64 word \<times> 'd world" where
  "PyLong_AsUnsignedLong v w =
     (case as_int v of
        None \<Rightarrow> (- 1, PyErr_SetString TypeError ''an integer is required'' w)
      | Some i \<Rightarrow>
          if i < 0 then
            (- 1, PyErr_SetString OverflowError
                    ''can't convert negative value to unsigned int'' w)
          else if 2 ^ 64 \<le> i then
            (- 1, PyErr_SetString OverflowError
                    ''Python int too large to convert to C unsigned long'' w)
          else (word_of_int i, w))"

text \<open>\<^verbatim>\<open>PyLong_AsLong\<close>: the same for \<^verbatim>\<open>long\<close>, \<^verbatim>\<open>-1\<close> on error.\<close>

definition PyLong_AsLong :: "pyobj \<Rightarrow> 'd world \<Rightarrow> 64 word \<times> 'd world" where
  "PyLong_AsLong v w =
     (case as_int v of
        None \<Rightarrow> (- 1, PyErr_SetString TypeError ''an integer is required'' w)
      | Some i \<Rightarrow>
          if i < - (2 ^ 63) \<or> 2 ^ 63 \<le> i then
            (- 1, PyErr_SetString OverflowError
                    ''Python int too large to convert to C long'' w)
          else (word_of_int i, w))"

text \<open>
  \<^verbatim>\<open>PyLong_AsVoidPtr\<close>: a negative integer goes through \<^verbatim>\<open>PyLong_AsLong\<close>, anything
  else through \<^verbatim>\<open>PyLong_AsUnsignedLong\<close>; the result is \<^verbatim>\<open>NULL\<close> (the address 0) when
  the conversion failed, and the converted value otherwise, so the integer 0 decodes to
  \<^verbatim>\<open>NULL\<close> with no exception set.
\<close>

definition PyLong_AsVoidPtr :: "pyobj \<Rightarrow> 'd world \<Rightarrow> 64 word \<times> 'd world" where
  "PyLong_AsVoidPtr v w =
     (let (x, w1) =
            (case as_int v of
               Some i \<Rightarrow> if i < 0 then PyLong_AsLong v w else PyLong_AsUnsignedLong v w
             | None \<Rightarrow> PyLong_AsUnsignedLong v w)
      in if x = - 1 \<and> PyErr_Occurred w1 then (0, w1) else (x, w1))"

text \<open>
  Whether a call of CPython's API sets an exception in the state \<open>w\<close>: it is run with
  the error indicator cleared, and the indicator is read after it.
\<close>

definition sets_exception :: "('d world \<Rightarrow> 'a \<times> 'd world) \<Rightarrow> 'd world \<Rightarrow> bool" where
  "sets_exception call w = PyErr_Occurred (snd (call (w\<lparr>py_err := None\<rparr>)))"

text \<open>\<^verbatim>\<open>PyLong_FromUnsignedLong\<close> and \<^verbatim>\<open>PyLong_FromLong\<close> allocate the integer object.\<close>

definition PyLong_FromUnsignedLong :: "64 word \<Rightarrow> 'd world \<Rightarrow> pyobj option \<times> 'd world" where
  "PyLong_FromUnsignedLong v w =
     (case py_alloc w of
        (True, w1) \<Rightarrow> (Some (PyLong (uint v)), w1)
      | (False, w1) \<Rightarrow> PyErr_NoMemory w1)"

definition PyLong_FromLong :: "64 word \<Rightarrow> 'd world \<Rightarrow> pyobj option \<times> 'd world" where
  "PyLong_FromLong v w =
     (case py_alloc w of
        (True, w1) \<Rightarrow> (Some (PyLong (sint v)), w1)
      | (False, w1) \<Rightarrow> PyErr_NoMemory w1)"

text \<open>\<^verbatim>\<open>PyTuple_New\<close>: \<open>False\<close> is the \<^verbatim>\<open>NULL\<close> result, with \<^verbatim>\<open>MemoryError\<close> set.\<close>

definition PyTuple_New :: "nat \<Rightarrow> 'd world \<Rightarrow> bool \<times> 'd world" where
  "PyTuple_New n w =
     (case py_alloc w of
        (True, w1) \<Rightarrow> (True, w1)
      | (False, w1) \<Rightarrow> (False, snd (PyErr_NoMemory w1)))"

subsection \<open>The Error Translator: \<^verbatim>\<open>SET_GL_ERR\<close> and \<^verbatim>\<open>CHECK_ERROR\<close>\<close>

text \<open>
  The error codes of OpenGL. \<^verbatim>\<open>GL_STACK_UNDERFLOW\<close> and \<^verbatim>\<open>GL_STACK_OVERFLOW\<close> are
  defined by the file; the others come from the OpenGL headers, with the values the
  OpenGL specification fixes.
\<close>

definition GL_NO_ERROR :: "32 word" where "GL_NO_ERROR = 0"
definition GL_INVALID_ENUM :: "32 word" where "GL_INVALID_ENUM = 0x0500"
definition GL_INVALID_VALUE :: "32 word" where "GL_INVALID_VALUE = 0x0501"
definition GL_INVALID_OPERATION :: "32 word" where "GL_INVALID_OPERATION = 0x0502"
definition GL_STACK_OVERFLOW :: "32 word" where "GL_STACK_OVERFLOW = 0x0503"
definition GL_STACK_UNDERFLOW :: "32 word" where "GL_STACK_UNDERFLOW = 0x0504"
definition GL_OUT_OF_MEMORY :: "32 word" where "GL_OUT_OF_MEMORY = 0x0505"
definition GL_INVALID_FRAMEBUFFER_OPERATION :: "32 word" where
  "GL_INVALID_FRAMEBUFFER_OPERATION = 0x0506"

text \<open>The \<^verbatim>\<open>switch\<close> of \<^verbatim>\<open>SET_GL_ERR\<close> on the code that \<^verbatim>\<open>glGetError()\<close> returned.\<close>

definition SET_GL_ERR_switch :: "32 word \<Rightarrow> 'd world \<Rightarrow> 'd world" where
  "SET_GL_ERR_switch c w =
     (if c = GL_NO_ERROR then w
      else if c = GL_INVALID_ENUM then
        PyErr_SetString ValueError ''An enum value is invalid (GL_INVALID_ENUM)'' w
      else if c = GL_INVALID_VALUE then
        PyErr_SetString ValueError ''An numeric value is invalid (GL_INVALID_VALUE)'' w
      else if c = GL_INVALID_OPERATION then
        PyErr_SetString ValueError
          ''This operation is not allowed in the current state (GL_INVALID_OPERATION)'' w
      else if c = GL_INVALID_FRAMEBUFFER_OPERATION then
        PyErr_SetString ValueError
          ''The framebuffer object is not complete (GL_INVALID_FRAMEBUFFER_OPERATION)'' w
      else if c = GL_OUT_OF_MEMORY then
        PyErr_SetString MemoryError
          ''There is not enough memory left to execute the command. (GL_OUT_OF_MEMORY)'' w
      else if c = GL_STACK_UNDERFLOW then
        PyErr_SetString OverflowError
          ''An attempt has been made to perform an operation that would cause an internal stack to underflow. (GL_STACK_UNDERFLOW)'' w
      else if c = GL_STACK_OVERFLOW then
        PyErr_SetString OverflowError
          ''An attempt has been made to perform an operation that would cause an internal stack to underflow. (GL_STACK_OVERFLOW)'' w
      else PyErr_SetString RuntimeError ''An unknown OpenGL error occurred.'' w)"

definition SET_GL_ERR :: "'d env \<Rightarrow> 'd world \<Rightarrow> 'd world" where
  "SET_GL_ERR e w =
     (let (r, w1) = native e glGetError [] w in SET_GL_ERR_switch (r_val r) w1)"

text \<open>
  \<^verbatim>\<open>CHECK_ERROR\<close>: the flag is \<open>True\<close> when the macro executes \<^verbatim>\<open>return NULL\<close>.
\<close>

definition CHECK_ERROR :: "'d env \<Rightarrow> 'd world \<Rightarrow> bool \<times> 'd world" where
  "CHECK_ERROR e w =
     (if enable_error_checking w \<noteq> 0 then
        (let w1 = SET_GL_ERR e w in if PyErr_Occurred w1 then (True, w1) else (False, w1))
      else (False, w))"

text \<open>\<^verbatim>\<open>PyObject_IsTrue\<close> on the values of the model (none of them can fail the test).\<close>

fun PyObject_IsTrue :: "pyobj \<Rightarrow> bool" where
  "PyObject_IsTrue PyNone = False"
| "PyObject_IsTrue (PyBool b) = b"
| "PyObject_IsTrue (PyLong i) = (i \<noteq> 0)"
| "PyObject_IsTrue (PyFloat x) = (x \<noteq> 0)"
| "PyObject_IsTrue (PyUnicode s) = (s \<noteq> [])"
| "PyObject_IsTrue (PyBytes s) = (s \<noteq> [])"
| "PyObject_IsTrue (PyTuple xs) = (xs \<noteq> [])"

definition enable_automatic_error_checking ::
  "pyobj \<Rightarrow> 'd world \<Rightarrow> pyobj option \<times> 'd world" where
  "enable_automatic_error_checking val w =
     Py_RETURN_NONE (w\<lparr>enable_error_checking := (if PyObject_IsTrue val then 1 else 0)\<rparr>)"

subsection \<open>Batch allocation: \<^verbatim>\<open>GenVertexArrays\<close>, \<^verbatim>\<open>GenTextures\<close>, \<^verbatim>\<open>GenBuffers\<close>\<close>

text \<open>
  Memory of the wrapper that a native call wrote into: the items written replace the
  start of the buffer, and the buffer keeps its size.
\<close>

definition store :: "'a list \<Rightarrow> 'a list \<Rightarrow> 'a list" where
  "store buf written = take (length buf) (written @ drop (length written) buf)"

text \<open>
  The \<^verbatim>\<open>for\<close> loop that the three functions share word for word: \<open>ans\<close> holds the
  items of the tuple set so far, which are the slots \<open>0\<close> to \<open>i - 1\<close>, so
  \<^verbatim>\<open>PyTuple_SET_ITEM(ans, i, t)\<close> adds \<open>t\<close> at the end.
\<close>

function gen_loop ::
  "32 word list \<Rightarrow> nat \<Rightarrow> nat \<Rightarrow> pyobj list \<Rightarrow> 'd world \<Rightarrow> pyobj option \<times> 'd world" where
  "gen_loop arrays n i ans w =
     (if i < n then
        (case PyLong_FromUnsignedLong (ucast (arrays ! i)) w of
           (None, w1) \<Rightarrow> PyErr_NoMemory w1
         | (Some t, w1) \<Rightarrow> gen_loop arrays n (Suc i) (ans @ [t]) w1)
      else (Some (PyTuple ans), w))"
  by pat_completeness auto
termination
  by (relation "measure (\<lambda>(arrays, n, i, ans, w). n - i)") auto

declare gen_loop.simps [simp del]

definition GenVertexArrays :: "'d env \<Rightarrow> pyobj \<Rightarrow> 'd world \<Rightarrow> pyobj option \<times> 'd world" where
  "GenVertexArrays e val w =
     (let arrays = replicate 256 (0 :: 32 word);
          (n, w1) = PyLong_AsUnsignedLong val w
      in if n > 256 then
           (None, PyErr_SetString ValueError
              ''Generating more than 256 arrays in a single call is not supported'' w1)
         else
           let (r, w2) = native e glGenVertexArrays [I32 (ucast n), Arr arrays] w1;
               arrays = store arrays (r_handles r);
               (failed, w3) = CHECK_ERROR e w2
           in if failed then (None, w3)
              else if n = 1 then PyLong_FromUnsignedLong (ucast (arrays ! 0)) w3
              else (case PyTuple_New (unat n) w3 of
                      (False, w4) \<Rightarrow> PyErr_NoMemory w4
                    | (True, w4) \<Rightarrow> gen_loop arrays (unat n) 0 [] w4))"

definition GenTextures :: "'d env \<Rightarrow> pyobj \<Rightarrow> 'd world \<Rightarrow> pyobj option \<times> 'd world" where
  "GenTextures e val w =
     (let arrays = replicate 256 (0 :: 32 word);
          (n, w1) = PyLong_AsUnsignedLong val w
      in if n > 256 then
           (None, PyErr_SetString ValueError
              ''Generating more than 256 textures in a single call is not supported'' w1)
         else
           let (r, w2) = native e glGenTextures [I32 (ucast n), Arr arrays] w1;
               arrays = store arrays (r_handles r);
               (failed, w3) = CHECK_ERROR e w2
           in if failed then (None, w3)
              else if n = 1 then PyLong_FromUnsignedLong (ucast (arrays ! 0)) w3
              else (case PyTuple_New (unat n) w3 of
                      (False, w4) \<Rightarrow> PyErr_NoMemory w4
                    | (True, w4) \<Rightarrow> gen_loop arrays (unat n) 0 [] w4))"

definition GenBuffers :: "'d env \<Rightarrow> pyobj \<Rightarrow> 'd world \<Rightarrow> pyobj option \<times> 'd world" where
  "GenBuffers e val w =
     (let arrays = replicate 256 (0 :: 32 word);
          (n, w1) = PyLong_AsUnsignedLong val w
      in if n > 256 then
           (None, PyErr_SetString ValueError
              ''Generating more than 256 buffers in a single call is not supported'' w1)
         else
           let (r, w2) = native e glGenBuffers [I32 (ucast n), Arr arrays] w1;
               arrays = store arrays (r_handles r);
               (failed, w3) = CHECK_ERROR e w2
           in if failed then (None, w3)
              else if n = 1 then PyLong_FromUnsignedLong (ucast (arrays ! 0)) w3
              else (case PyTuple_New (unat n) w3 of
                      (False, w4) \<Rightarrow> PyErr_NoMemory w4
                    | (True, w4) \<Rightarrow> gen_loop arrays (unat n) 0 [] w4))"

text \<open>Every allocation of the Python heap that is still to come succeeds.\<close>

definition allocs_ok :: "'d world \<Rightarrow> bool" where
  "allocs_ok w = (\<forall>ok \<in> set (mem_plan w). ok)"

text \<open>
  The text that the three functions share, with the native entry point and the message as
  parameters. It is not in the source: it serves to prove a fact about the three functions
  at once (each is shown equal to an instance of it).
\<close>

definition gen_common ::
  "gl_fn \<Rightarrow> string \<Rightarrow> 'd env \<Rightarrow> pyobj \<Rightarrow> 'd world \<Rightarrow> pyobj option \<times> 'd world" where
  "gen_common g msg e val w =
     (let arrays = replicate 256 (0 :: 32 word);
          (n, w1) = PyLong_AsUnsignedLong val w
      in if n > 256 then (None, PyErr_SetString ValueError msg w1)
         else
           let (r, w2) = native e g [I32 (ucast n), Arr arrays] w1;
               arrays = store arrays (r_handles r);
               (failed, w3) = CHECK_ERROR e w2
           in if failed then (None, w3)
              else if n = 1 then PyLong_FromUnsignedLong (ucast (arrays ! 0)) w3
              else (case PyTuple_New (unat n) w3 of
                      (False, w4) \<Rightarrow> PyErr_NoMemory w4
                    | (True, w4) \<Rightarrow> gen_loop arrays (unat n) 0 [] w4))"

subsection \<open>Argument parsing: \<^verbatim>\<open>PyArg_ParseTuple\<close>\<close>

text \<open>
  The format units that the file uses, each as a converter from a Python value to the C
  value or an exception, after CPython's documentation of \<^verbatim>\<open>PyArg_ParseTuple\<close>. The
  texts of CPython's own messages are abbreviated.
\<close>

type_synonym 'a conv = "pyobj \<Rightarrow> pyerr + 'a"

text \<open>\<^verbatim>\<open>I\<close>: \<^verbatim>\<open>unsigned int\<close>, without overflow checking.\<close>

definition conv_I :: "32 word conv" where
  "conv_I v =
     (case as_int v of
        None \<Rightarrow> Inl (TypeError, ''an integer is required'')
      | Some i \<Rightarrow> Inr (word_of_int i))"

text \<open>\<^verbatim>\<open>k\<close>: \<^verbatim>\<open>unsigned long\<close>, without overflow checking.\<close>

definition conv_k :: "64 word conv" where
  "conv_k v =
     (case as_int v of
        None \<Rightarrow> Inl (TypeError, ''an integer is required'')
      | Some i \<Rightarrow> Inr (word_of_int i))"

text \<open>\<^verbatim>\<open>i\<close>: \<^verbatim>\<open>int\<close>, with overflow checking.\<close>

definition conv_i :: "32 word conv" where
  "conv_i v =
     (case as_int v of
        None \<Rightarrow> Inl (TypeError, ''an integer is required'')
      | Some i \<Rightarrow>
          if 2 ^ 31 \<le> i then Inl (OverflowError, ''signed integer is greater than maximum'')
          else if i < - (2 ^ 31) then
            Inl (OverflowError, ''signed integer is less than minimum'')
          else Inr (word_of_int i))"

text \<open>
  \<^verbatim>\<open>f\<close>: \<^verbatim>\<open>float\<close>, from a Python float or integer. The rounding to single precision
  is not modelled: an integer beyond the range of \<^verbatim>\<open>double\<close> is an \<^verbatim>\<open>OverflowError\<close>,
  every other number is passed on as it is.
\<close>

definition conv_f :: "real conv" where
  "conv_f v =
     (case v of
        PyFloat x \<Rightarrow> Inr x
      | _ \<Rightarrow>
        (case as_int v of
           None \<Rightarrow> Inl (TypeError, ''must be real number'')
         | Some i \<Rightarrow>
             if 2 ^ 1024 - 2 ^ 970 \<le> \<bar>i\<bar> then
               Inl (OverflowError, ''int too large to convert to float'')
             else Inr (of_int i)))"

text \<open>\<^verbatim>\<open>O!\<close> with \<^verbatim>\<open>&PyLong_Type\<close>: the object itself if it is an integer.\<close>

definition conv_O_PyLong :: "pyobj conv" where
  "conv_O_PyLong v =
     (case as_int v of
        None \<Rightarrow> Inl (TypeError, ''argument must be int'')
      | Some i \<Rightarrow> Inr v)"

text \<open>\<^verbatim>\<open>s\<close>: a \<^verbatim>\<open>str\<close> without a null character, as a C string in UTF-8.\<close>

definition conv_s :: "string conv" where
  "conv_s v =
     (case v of
        PyUnicode s \<Rightarrow>
          if CHR 0x00 \<in> set s then Inl (ValueError, ''embedded null character'') else Inr s
      | _ \<Rightarrow> Inl (TypeError, ''argument must be str''))"

text \<open>\<^verbatim>\<open>s#\<close>: a \<^verbatim>\<open>str\<close> or a bytes object, as a buffer and its length.\<close>

definition conv_s_hash :: "(string \<times> int) conv" where
  "conv_s_hash v =
     (case v of
        PyUnicode s \<Rightarrow> Inr (s, int (length s))
      | PyBytes s \<Rightarrow> Inr (s, int (length s))
      | _ \<Rightarrow> Inl (TypeError, ''argument must be str or bytes''))"

text \<open>\<^verbatim>\<open>p\<close>: the truth value of any object, as an \<^verbatim>\<open>int\<close>.\<close>

definition conv_p :: "32 word conv" where
  "conv_p v = Inr (if PyObject_IsTrue v then 1 else 0)"

text \<open>
  A format is the number of its units and the conversion of the arguments in order;
  \<open>fmt_end\<close> is the end of the format string and \<open>fmt c rest\<close> a unit followed by the
  rest.
\<close>

type_synonym 'a fmt = "nat \<times> (pyobj list \<Rightarrow> pyerr + 'a)"

definition fmt_end :: "unit fmt" where
  "fmt_end = (0, \<lambda>xs. Inr ())"

definition fmt :: "'a conv \<Rightarrow> 'b fmt \<Rightarrow> ('a \<times> 'b) fmt" where
  "fmt c rest =
     (Suc (fst rest),
      \<lambda>xs. case xs of
              [] \<Rightarrow> Inl (TypeError, ''not enough arguments'')
            | x # xs' \<Rightarrow>
                (case c x of
                   Inl err \<Rightarrow> Inl err
                 | Inr a \<Rightarrow>
                     (case snd rest xs' of
                        Inl err \<Rightarrow> Inl err
                      | Inr b \<Rightarrow> Inr (a, b))))"

text \<open>
  \<^verbatim>\<open>PyArg_ParseTuple\<close> on the argument tuple of a \<^verbatim>\<open>METH_VARARGS\<close> function: the number
  of arguments is checked first, then each argument is converted; on failure the exception
  is set and the result is \<open>None\<close> (the wrapper returns \<^verbatim>\<open>NULL\<close>).
\<close>

definition PyArg_ParseTuple :: "pyobj list \<Rightarrow> 'a fmt \<Rightarrow> 'd world \<Rightarrow> 'a option \<times> 'd world" where
  "PyArg_ParseTuple args f w =
     (if length args \<noteq> fst f then
        (None, PyErr_SetString TypeError ''function takes a different number of arguments'' w)
      else
        (case snd f args of
           Inl err \<Rightarrow> (None, w\<lparr>py_err := Some err\<rparr>)
         | Inr v \<Rightarrow> (Some v, w)))"

subsection \<open>Scratch memory and byte strings\<close>

text \<open>
  \<^verbatim>\<open>PyMem_Calloc(nelem, 1)\<close> and \<^verbatim>\<open>PyMem_Malloc(size)\<close>: \<^verbatim>\<open>NULL\<close> (no exception
  set) when the size exceeds \<^verbatim>\<open>PY_SSIZE_T_MAX\<close> or the heap refuses, a block otherwise;
  \<^verbatim>\<open>PyMem_Calloc\<close> gives the block zeroed. The bytes of a block from
  \<^verbatim>\<open>PyMem_Malloc\<close> are indeterminate in C until they are written; the model reads them
  as 0.
\<close>

definition PyMem_Calloc :: "64 word \<Rightarrow> 'd world \<Rightarrow> string option \<times> 'd world" where
  "PyMem_Calloc nelem w =
     (if 2 ^ 63 \<le> unat nelem then (None, w)
      else
        (case py_alloc w of
           (True, w1) \<Rightarrow>
             (Some (replicate (unat nelem) (CHR 0x00)),
              w1\<lparr>live := Suc (live w1), events := events w1 @ [MemAlloc (unat nelem)]\<rparr>)
         | (False, w1) \<Rightarrow> (None, w1)))"

definition PyMem_Malloc :: "64 word \<Rightarrow> 'd world \<Rightarrow> string option \<times> 'd world" where
  "PyMem_Malloc size' w =
     (if 2 ^ 63 \<le> unat size' then (None, w)
      else
        (case py_alloc w of
           (True, w1) \<Rightarrow>
             (Some (replicate (unat size') (CHR 0x00)),
              w1\<lparr>live := Suc (live w1), events := events w1 @ [MemAlloc (unat size')]\<rparr>)
         | (False, w1) \<Rightarrow> (None, w1)))"

definition PyMem_Free :: "'d world \<Rightarrow> 'd world" where
  "PyMem_Free w = w\<lparr>live := live w - 1, events := events w @ [MemFree]\<rparr>"

text \<open>
  \<^verbatim>\<open>PyBytes_FromStringAndSize(buf, size)\<close>: a negative size is a \<^verbatim>\<open>SystemError\<close>;
  otherwise the first \<open>size\<close> bytes of the buffer (in C a size beyond the buffer reads
  past its end; here the bytes stop at the end of the buffer).
\<close>

definition PyBytes_FromStringAndSize ::
  "string \<Rightarrow> 64 word \<Rightarrow> 'd world \<Rightarrow> pyobj option \<times> 'd world" where
  "PyBytes_FromStringAndSize buf size' w =
     (if sint size' < 0 then
        (None, PyErr_SetString SystemError
                 ''Negative size passed to PyBytes_FromStringAndSize'' w)
      else
        (case py_alloc w of
           (True, w1) \<Rightarrow> (Some (PyBytes (take (nat (sint size')) buf)), w1)
         | (False, w1) \<Rightarrow> PyErr_NoMemory w1))"

text \<open>\<^verbatim>\<open>PyBytes_FromString\<close> on a C string (given without its terminator).\<close>

definition PyBytes_FromString :: "string \<Rightarrow> 'd world \<Rightarrow> pyobj option \<times> 'd world" where
  "PyBytes_FromString s w =
     (case py_alloc w of
        (True, w1) \<Rightarrow> (Some (PyBytes s), w1)
      | (False, w1) \<Rightarrow> PyErr_NoMemory w1)"

subsection \<open>Constants of the OpenGL and GLEW headers\<close>

text \<open>
  The file takes these from \<^verbatim>\<open>GL/glew.h\<close> or \<^verbatim>\<open>OpenGL/gl3.h\<close>; the values are the
  ones the OpenGL registry fixes. \<open>gl_constants\<close> is the table of
  \<^verbatim>\<open>add_module_gl_constants\<close>, in the order of its \<^verbatim>\<open>GLC\<close> lines.
\<close>

definition GLEW_OK :: "32 word" where "GLEW_OK = 0"
definition GL_INFO_LOG_LENGTH :: "32 word" where "GL_INFO_LOG_LENGTH = 0x8B84"
definition GL_TEXTURE_2D_ARRAY :: "32 word" where "GL_TEXTURE_2D_ARRAY = 0x8C1A"
definition GL_TEXTURE_BUFFER :: "32 word" where "GL_TEXTURE_BUFFER = 0x8C2A"
definition GL_RGBA :: "32 word" where "GL_RGBA = 0x1908"
definition GL_RED :: "32 word" where "GL_RED = 0x1903"
definition GL_UNSIGNED_BYTE :: "32 word" where "GL_UNSIGNED_BYTE = 0x1401"
definition GL_UNPACK_ALIGNMENT :: "32 word" where "GL_UNPACK_ALIGNMENT = 0x0CF5"

definition gl_constants :: "(string \<times> int) list" where
  "gl_constants =
     [(''GL_VERSION'', 0x1F02),
      (''GL_VENDOR'', 0x1F00),
      (''GL_SHADING_LANGUAGE_VERSION'', 0x8B8C),
      (''GL_RENDERER'', 0x1F01),
      (''GL_TRIANGLE_FAN'', 0x0006), (''GL_TRIANGLE_STRIP'', 0x0005),
      (''GL_TRIANGLES'', 0x0004), (''GL_LINE_LOOP'', 0x0002),
      (''GL_COLOR_BUFFER_BIT'', 0x4000),
      (''GL_VERTEX_SHADER'', 0x8B31),
      (''GL_FRAGMENT_SHADER'', 0x8B30),
      (''GL_TRUE'', 1),
      (''GL_FALSE'', 0),
      (''GL_COMPILE_STATUS'', 0x8B81),
      (''GL_LINK_STATUS'', 0x8B82),
      (''GL_TEXTURE0'', 0x84C0), (''GL_TEXTURE1'', 0x84C1), (''GL_TEXTURE2'', 0x84C2),
      (''GL_TEXTURE3'', 0x84C3), (''GL_TEXTURE4'', 0x84C4), (''GL_TEXTURE5'', 0x84C5),
      (''GL_TEXTURE6'', 0x84C6), (''GL_TEXTURE7'', 0x84C7), (''GL_TEXTURE8'', 0x84C8),
      (''GL_MAX_ARRAY_TEXTURE_LAYERS'', 0x88FF),
      (''GL_MAX_TEXTURE_SIZE'', 0x0D33),
      (''GL_TEXTURE_2D_ARRAY'', 0x8C1A),
      (''GL_LINEAR'', 0x2601), (''GL_CLAMP_TO_EDGE'', 0x812F), (''GL_NEAREST'', 0x2600),
      (''GL_TEXTURE_MIN_FILTER'', 0x2801), (''GL_TEXTURE_MAG_FILTER'', 0x2800),
      (''GL_TEXTURE_WRAP_S'', 0x2802), (''GL_TEXTURE_WRAP_T'', 0x2803),
      (''GL_UNPACK_ALIGNMENT'', 0x0CF5),
      (''GL_R8'', 0x8229), (''GL_RED'', 0x1903), (''GL_UNSIGNED_BYTE'', 0x1401),
      (''GL_RGB32UI'', 0x8D71), (''GL_RGBA'', 0x1908),
      (''GL_TEXTURE_BUFFER'', 0x8C2A), (''GL_STATIC_DRAW'', 0x88E4),
      (''GL_STREAM_DRAW'', 0x88E0),
      (''GL_SRC_ALPHA'', 0x0302), (''GL_ONE_MINUS_SRC_ALPHA'', 0x0303),
      (''GL_BLEND'', 0x0BE2), (''GL_FLOAT'', 0x1406), (''GL_ARRAY_BUFFER'', 0x8892)]"

subsection \<open>The wrappers\<close>

text \<open>
  Each wrapper in the order of the file. The argument of a \<^verbatim>\<open>METH_O\<close> function is one
  Python value, of a \<^verbatim>\<open>METH_VARARGS\<close> function the list of the items of its argument
  tuple. Where C leaves the order of evaluation of the arguments of a call open, they are
  evaluated from left to right.
\<close>

type_synonym 'd ret = "pyobj option \<times> 'd world"

definition Viewport :: "'d env \<Rightarrow> pyobj list \<Rightarrow> 'd world \<Rightarrow> 'd ret" where
  "Viewport e args w =
     (case PyArg_ParseTuple args (fmt conv_I (fmt conv_I (fmt conv_I (fmt conv_I fmt_end)))) w of
        (None, w1) \<Rightarrow> (None, w1)
      | (Some (x, y, ww, h, _), w1) \<Rightarrow>
          let (r, w2) = native e glViewport [I32 x, I32 y, I32 ww, I32 h] w1;
              (failed, w3) = CHECK_ERROR e w2
          in if failed then (None, w3) else Py_RETURN_NONE w3)"

definition ClearColor :: "'d env \<Rightarrow> pyobj list \<Rightarrow> 'd world \<Rightarrow> 'd ret" where
  "ClearColor e args w =
     (case PyArg_ParseTuple args (fmt conv_f (fmt conv_f (fmt conv_f (fmt conv_f fmt_end)))) w of
        (None, w1) \<Rightarrow> (None, w1)
      | (Some (x, y, ww, h, _), w1) \<Rightarrow>
          let (r, w2) = native e glClearColor [F32 x, F32 y, F32 ww, F32 h] w1;
              (failed, w3) = CHECK_ERROR e w2
          in if failed then (None, w3) else Py_RETURN_NONE w3)"

definition Uniform2ui :: "'d env \<Rightarrow> pyobj list \<Rightarrow> 'd world \<Rightarrow> 'd ret" where
  "Uniform2ui e args w =
     (case PyArg_ParseTuple args (fmt conv_i (fmt conv_I (fmt conv_I fmt_end))) w of
        (None, w1) \<Rightarrow> (None, w1)
      | (Some (location, x, y, _), w1) \<Rightarrow>
          let (r, w2) = native e glUniform2ui [I32 location, I32 x, I32 y] w1;
              (failed, w3) = CHECK_ERROR e w2
          in if failed then (None, w3) else Py_RETURN_NONE w3)"

definition Uniform1i :: "'d env \<Rightarrow> pyobj list \<Rightarrow> 'd world \<Rightarrow> 'd ret" where
  "Uniform1i e args w =
     (case PyArg_ParseTuple args (fmt conv_i (fmt conv_i fmt_end)) w of
        (None, w1) \<Rightarrow> (None, w1)
      | (Some (location, x, _), w1) \<Rightarrow>
          let (r, w2) = native e glUniform1i [I32 location, I32 x] w1;
              (failed, w3) = CHECK_ERROR e w2
          in if failed then (None, w3) else Py_RETURN_NONE w3)"

definition Uniform2f :: "'d env \<Rightarrow> pyobj list \<Rightarrow> 'd world \<Rightarrow> 'd ret" where
  "Uniform2f e args w =
     (case PyArg_ParseTuple args (fmt conv_i (fmt conv_f (fmt conv_f fmt_end))) w of
        (None, w1) \<Rightarrow> (None, w1)
      | (Some (location, x, y, _), w1) \<Rightarrow>
          let (r, w2) = native e glUniform2f [I32 location, F32 x, F32 y] w1;
              (failed, w3) = CHECK_ERROR e w2
          in if failed then (None, w3) else Py_RETURN_NONE w3)"

definition Uniform4f :: "'d env \<Rightarrow> pyobj list \<Rightarrow> 'd world \<Rightarrow> 'd ret" where
  "Uniform4f e args w =
     (case PyArg_ParseTuple args
             (fmt conv_i (fmt conv_f (fmt conv_f (fmt conv_f (fmt conv_f fmt_end))))) w of
        (None, w1) \<Rightarrow> (None, w1)
      | (Some (location, x, y, a, b, _), w1) \<Rightarrow>
          let (r, w2) = native e glUniform4f [I32 location, F32 x, F32 y, F32 a, F32 b] w1;
              (failed, w3) = CHECK_ERROR e w2
          in if failed then (None, w3) else Py_RETURN_NONE w3)"

definition Uniform3fv :: "'d env \<Rightarrow> pyobj list \<Rightarrow> 'd world \<Rightarrow> 'd ret" where
  "Uniform3fv e args w =
     (case PyArg_ParseTuple args (fmt conv_i (fmt conv_I (fmt conv_O_PyLong fmt_end))) w of
        (None, w1) \<Rightarrow> (None, w1)
      | (Some (location, count, l, _), w1) \<Rightarrow>
          let (p, w2) = PyLong_AsVoidPtr l w1;
              (r, w3) = native e glUniform3fv [I32 location, I32 count, Ptr p] w2;
              (failed, w4) = CHECK_ERROR e w3
          in if failed then (None, w4) else Py_RETURN_NONE w4)"

definition CheckError :: "'d env \<Rightarrow> 'd world \<Rightarrow> 'd ret" where
  "CheckError e w =
     (let (failed, w1) = CHECK_ERROR e w
      in if failed then (None, w1) else Py_RETURN_NONE w1)"

text \<open>
  \<^verbatim>\<open>_glewInit\<close>. \<^verbatim>\<open>PyErr_Format\<close> with \<^verbatim>\<open>%s\<close> appends the string to the text before it.
\<close>

definition glewInit_meth :: "'d env \<Rightarrow> 'd world \<Rightarrow> 'd ret" where
  "glewInit_meth e w =
     (if \<not> apple e then
        (let (r, w1) = native e glewInit [] w;
             err = r_val r
         in if err \<noteq> GLEW_OK then
              (None, PyErr_SetString RuntimeError
                       (''GLEW init failed: '' @ glewGetErrorString e err) w1)
            else if \<not> GLEW_ARB_texture_storage e (driver w1) then
              (None, PyErr_SetString RuntimeError
                       (''The OpenGL driver on this system is missing the required extension: ARB_''
                        @ ''texture_storage'') w1)
            else if \<not> GLEW_ARB_texture_buffer_object_rgb32 e (driver w1) then
              (None, PyErr_SetString RuntimeError
                       (''The OpenGL driver on this system is missing the required extension: ARB_''
                        @ ''texture_buffer_object_rgb32'') w1)
            else Py_RETURN_NONE w1)
      else Py_RETURN_NONE w)"

definition GetString :: "'d env \<Rightarrow> pyobj \<Rightarrow> 'd world \<Rightarrow> 'd ret" where
  "GetString e val w =
     (let (name, w1) = PyLong_AsUnsignedLong val w;
          (r, w2) = native e glGetString [I32 (ucast name)] w1
      in case r_str r of
           None \<Rightarrow> (None, SET_GL_ERR e w2)
         | Some ans \<Rightarrow> PyBytes_FromString ans w2)"

definition Clear :: "'d env \<Rightarrow> pyobj \<Rightarrow> 'd world \<Rightarrow> 'd ret" where
  "Clear e val w =
     (let (m, w1) = PyLong_AsUnsignedLong val w;
          w2 = Py_BEGIN_ALLOW_THREADS w1;
          (r, w3) = native e glClear [I32 (ucast m)] w2;
          w4 = Py_END_ALLOW_THREADS w3;
          (failed, w5) = CHECK_ERROR e w4
      in if failed then (None, w5) else Py_RETURN_NONE w5)"

definition DrawArrays :: "'d env \<Rightarrow> pyobj list \<Rightarrow> 'd world \<Rightarrow> 'd ret" where
  "DrawArrays e args w =
     (case PyArg_ParseTuple args (fmt conv_i (fmt conv_i (fmt conv_I fmt_end))) w of
        (None, w1) \<Rightarrow> (None, w1)
      | (Some (mode, first, count, _), w1) \<Rightarrow>
          let w2 = Py_BEGIN_ALLOW_THREADS w1;
              (r, w3) = native e glDrawArrays [I32 mode, I32 first, I32 count] w2;
              w4 = Py_END_ALLOW_THREADS w3;
              (failed, w5) = CHECK_ERROR e w4
          in if failed then (None, w5) else Py_RETURN_NONE w5)"

text \<open>
  \<^verbatim>\<open>MultiDrawArrays\<close> decodes its two pointers after it has released the lock. A
  conversion that succeeds only reads the integer. A conversion that fails sets an
  exception without the lock, and the process is killed there, before the native call.
\<close>

definition MultiDrawArrays :: "'d env \<Rightarrow> pyobj list \<Rightarrow> 'd world \<Rightarrow> 'd ret" where
  "MultiDrawArrays e args w =
     (case PyArg_ParseTuple args
             (fmt conv_i (fmt conv_O_PyLong (fmt conv_O_PyLong (fmt conv_I fmt_end)))) w of
        (None, w1) \<Rightarrow> (None, w1)
      | (Some (mode, a, b, draw_count, _), w1) \<Rightarrow>
          let w2 = Py_BEGIN_ALLOW_THREADS w1
          in if sets_exception (PyLong_AsVoidPtr a) w2 then (None, w2\<lparr>crashed := True\<rparr>)
             else
               let (pa, w3) = PyLong_AsVoidPtr a w2
               in if sets_exception (PyLong_AsVoidPtr b) w3 then (None, w3\<lparr>crashed := True\<rparr>)
                  else
                    let (pb, w4) = PyLong_AsVoidPtr b w3;
                        (r, w5) = native e glMultiDrawArrays
                                    [I32 mode, Ptr pa, Ptr pb, I32 draw_count] w4;
                        w6 = Py_END_ALLOW_THREADS w5;
                        (failed, w7) = CHECK_ERROR e w6
                    in if failed then (None, w7) else Py_RETURN_NONE w7)"

definition DrawArraysInstanced :: "'d env \<Rightarrow> pyobj list \<Rightarrow> 'd world \<Rightarrow> 'd ret" where
  "DrawArraysInstanced e args w =
     (case PyArg_ParseTuple args (fmt conv_i (fmt conv_i (fmt conv_I (fmt conv_I fmt_end)))) w of
        (None, w1) \<Rightarrow> (None, w1)
      | (Some (mode, first, count, primcount, _), w1) \<Rightarrow>
          let w2 = Py_BEGIN_ALLOW_THREADS w1;
              (r, w3) = native e glDrawArraysInstanced
                          [I32 mode, I32 first, I32 count, I32 primcount] w2;
              w4 = Py_END_ALLOW_THREADS w3;
              (failed, w5) = CHECK_ERROR e w4
          in if failed then (None, w5) else Py_RETURN_NONE w5)"

definition CreateProgram :: "'d env \<Rightarrow> 'd world \<Rightarrow> 'd ret" where
  "CreateProgram e w =
     (let (r, w1) = native e glCreateProgram [] w;
          ans = r_val r
      in if ans = 0 then (None, SET_GL_ERR e w1)
         else PyLong_FromUnsignedLong (ucast ans) w1)"

definition AttachShader :: "'d env \<Rightarrow> pyobj list \<Rightarrow> 'd world \<Rightarrow> 'd ret" where
  "AttachShader e args w =
     (case PyArg_ParseTuple args (fmt conv_I (fmt conv_I fmt_end)) w of
        (None, w1) \<Rightarrow> (None, w1)
      | (Some (program_id, shader_id, _), w1) \<Rightarrow>
          let (r, w2) = native e glAttachShader [I32 program_id, I32 shader_id] w1;
              (failed, w3) = CHECK_ERROR e w2
          in if failed then (None, w3) else Py_RETURN_NONE w3)"

definition LinkProgram :: "'d env \<Rightarrow> pyobj \<Rightarrow> 'd world \<Rightarrow> 'd ret" where
  "LinkProgram e val w =
     (let (program_id, w1) = PyLong_AsUnsignedLong val w;
          (r, w2) = native e glLinkProgram [I32 (ucast program_id)] w1;
          (failed, w3) = CHECK_ERROR e w2
      in if failed then (None, w3) else Py_RETURN_NONE w3)"

definition GetProgramiv :: "'d env \<Rightarrow> pyobj list \<Rightarrow> 'd world \<Rightarrow> 'd ret" where
  "GetProgramiv e args w =
     (case PyArg_ParseTuple args (fmt conv_I (fmt conv_i fmt_end)) w of
        (None, w1) \<Rightarrow> (None, w1)
      | (Some (program_id, pname, _), w1) \<Rightarrow>
          let ans = 0;
              (r, w2) = native e glGetProgramiv [I32 program_id, I32 pname, Cell ans] w1;
              ans = r_cell r;
              (failed, w3) = CHECK_ERROR e w2
          in if failed then (None, w3) else PyLong_FromLong (scast ans) w3)"

definition GetProgramInfoLog :: "'d env \<Rightarrow> pyobj \<Rightarrow> 'd world \<Rightarrow> 'd ret" where
  "GetProgramInfoLog e val w =
     (let (program_id, w1) = PyLong_AsUnsignedLong val w;
          log_len = 0;
          (r, w2) = native e glGetProgramiv
                      [I32 (ucast program_id), I32 GL_INFO_LOG_LENGTH, Cell log_len] w1;
          log_len = r_cell r
      in case PyMem_Calloc (scast (log_len + 10)) w2 of
           (None, w3) \<Rightarrow> PyErr_NoMemory w3
         | (Some buf, w3) \<Rightarrow>
             let (r', w4) = native e glGetProgramInfoLog
                              [I32 (ucast program_id), I32 log_len, Cell log_len, Buf buf] w3;
                 log_len = r_cell r';
                 buf = store buf (r_bytes r');
                 (ans, w5) = PyBytes_FromStringAndSize buf (scast log_len) w4;
                 w6 = PyMem_Free w5
             in (ans, w6))"

definition GetShaderInfoLog :: "'d env \<Rightarrow> pyobj \<Rightarrow> 'd world \<Rightarrow> 'd ret" where
  "GetShaderInfoLog e val w =
     (let (program_id, w1) = PyLong_AsUnsignedLong val w;
          log_len = 0;
          (r, w2) = native e glGetShaderiv
                      [I32 (ucast program_id), I32 GL_INFO_LOG_LENGTH, Cell log_len] w1;
          log_len = r_cell r
      in case PyMem_Calloc (scast (log_len + 10)) w2 of
           (None, w3) \<Rightarrow> PyErr_NoMemory w3
         | (Some buf, w3) \<Rightarrow>
             let (r', w4) = native e glGetShaderInfoLog
                              [I32 (ucast program_id), I32 log_len, Cell log_len, Buf buf] w3;
                 log_len = r_cell r';
                 buf = store buf (r_bytes r');
                 (ans, w5) = PyBytes_FromStringAndSize buf (scast log_len) w4;
                 w6 = PyMem_Free w5
             in (ans, w6))"

definition ActiveTexture :: "'d env \<Rightarrow> pyobj \<Rightarrow> 'd world \<Rightarrow> 'd ret" where
  "ActiveTexture e val w =
     (let (tex_id, w1) = PyLong_AsLong val w;
          (r, w2) = native e glActiveTexture [I32 (ucast tex_id)] w1;
          (failed, w3) = CHECK_ERROR e w2
      in if failed then (None, w3) else Py_RETURN_NONE w3)"

definition DeleteProgram :: "'d env \<Rightarrow> pyobj \<Rightarrow> 'd world \<Rightarrow> 'd ret" where
  "DeleteProgram e val w =
     (let (program_id, w1) = PyLong_AsUnsignedLong val w;
          (r, w2) = native e glDeleteProgram [I32 (ucast program_id)] w1;
          (failed, w3) = CHECK_ERROR e w2
      in if failed then (None, w3) else Py_RETURN_NONE w3)"

definition DeleteShader :: "'d env \<Rightarrow> pyobj \<Rightarrow> 'd world \<Rightarrow> 'd ret" where
  "DeleteShader e val w =
     (let (program_id, w1) = PyLong_AsUnsignedLong val w;
          (r, w2) = native e glDeleteShader [I32 (ucast program_id)] w1;
          (failed, w3) = CHECK_ERROR e w2
      in if failed then (None, w3) else Py_RETURN_NONE w3)"

definition CreateShader :: "'d env \<Rightarrow> pyobj \<Rightarrow> 'd world \<Rightarrow> 'd ret" where
  "CreateShader e val w =
     (let (shader_type, w1) = PyLong_AsLong val w;
          (r, w2) = native e glCreateShader [I32 (ucast shader_type)] w1;
          ans = r_val r;
          (failed, w3) = CHECK_ERROR e w2
      in if failed then (None, w3) else PyLong_FromUnsignedLong (ucast ans) w3)"

definition ShaderSource :: "'d env \<Rightarrow> pyobj list \<Rightarrow> 'd world \<Rightarrow> 'd ret" where
  "ShaderSource e args w =
     (case PyArg_ParseTuple args (fmt conv_I (fmt conv_s_hash fmt_end)) w of
        (None, w1) \<Rightarrow> (None, w1)
      | (Some (shader_id, (src, src_len), _), w1) \<Rightarrow>
          let (r, w2) = native e glShaderSource [I32 shader_id, I32 1, CStr src, Ptr 0] w1;
              (failed, w3) = CHECK_ERROR e w2
          in if failed then (None, w3) else Py_RETURN_NONE w3)"

definition CompileShader :: "'d env \<Rightarrow> pyobj \<Rightarrow> 'd world \<Rightarrow> 'd ret" where
  "CompileShader e val w =
     (let (shader_id, w1) = PyLong_AsUnsignedLong val w;
          (r, w2) = native e glCompileShader [I32 (ucast shader_id)] w1;
          (failed, w3) = CHECK_ERROR e w2
      in if failed then (None, w3) else Py_RETURN_NONE w3)"

definition GetShaderiv :: "'d env \<Rightarrow> pyobj list \<Rightarrow> 'd world \<Rightarrow> 'd ret" where
  "GetShaderiv e args w =
     (case PyArg_ParseTuple args (fmt conv_I (fmt conv_i fmt_end)) w of
        (None, w1) \<Rightarrow> (None, w1)
      | (Some (program_id, pname, _), w1) \<Rightarrow>
          let ans = 0;
              (r, w2) = native e glGetShaderiv [I32 program_id, I32 pname, Cell ans] w1;
              ans = r_cell r;
              (failed, w3) = CHECK_ERROR e w2
          in if failed then (None, w3) else PyLong_FromLong (scast ans) w3)"

definition GetUniformLocation :: "'d env \<Rightarrow> pyobj list \<Rightarrow> 'd world \<Rightarrow> 'd ret" where
  "GetUniformLocation e args w =
     (case PyArg_ParseTuple args (fmt conv_I (fmt conv_s fmt_end)) w of
        (None, w1) \<Rightarrow> (None, w1)
      | (Some (program_id, name, _), w1) \<Rightarrow>
          let (r, w2) = native e glGetUniformLocation [I32 program_id, CStr name] w1;
              ans = r_val r;
              (failed, w3) = CHECK_ERROR e w2
          in if failed then (None, w3) else PyLong_FromLong (scast ans) w3)"

definition GetAttribLocation :: "'d env \<Rightarrow> pyobj list \<Rightarrow> 'd world \<Rightarrow> 'd ret" where
  "GetAttribLocation e args w =
     (case PyArg_ParseTuple args (fmt conv_I (fmt conv_s fmt_end)) w of
        (None, w1) \<Rightarrow> (None, w1)
      | (Some (program_id, name, _), w1) \<Rightarrow>
          let (r, w2) = native e glGetAttribLocation [I32 program_id, CStr name] w1;
              ans = r_val r;
              (failed, w3) = CHECK_ERROR e w2
          in if failed then (None, w3) else PyLong_FromLong (scast ans) w3)"

definition UseProgram :: "'d env \<Rightarrow> pyobj \<Rightarrow> 'd world \<Rightarrow> 'd ret" where
  "UseProgram e val w =
     (let (program_id, w1) = PyLong_AsUnsignedLong val w;
          (r, w2) = native e glUseProgram [I32 (ucast program_id)] w1;
          (failed, w3) = CHECK_ERROR e w2
      in if failed then (None, w3) else Py_RETURN_NONE w3)"

definition BindVertexArray :: "'d env \<Rightarrow> pyobj \<Rightarrow> 'd world \<Rightarrow> 'd ret" where
  "BindVertexArray e val w =
     (let (program_id, w1) = PyLong_AsUnsignedLong val w;
          (r, w2) = native e glBindVertexArray [I32 (ucast program_id)] w1;
          (failed, w3) = CHECK_ERROR e w2
      in if failed then (None, w3) else Py_RETURN_NONE w3)"

definition GetIntegerv :: "'d env \<Rightarrow> pyobj \<Rightarrow> 'd world \<Rightarrow> 'd ret" where
  "GetIntegerv e val w =
     (let (program_id, w1) = PyLong_AsUnsignedLong val w;
          ans = 0;
          (r, w2) = native e glGetIntegerv [I32 (ucast program_id), Cell ans] w1;
          ans = r_cell r;
          (failed, w3) = CHECK_ERROR e w2
      in if failed then (None, w3) else PyLong_FromLong (scast ans) w3)"

definition BindTexture :: "'d env \<Rightarrow> pyobj list \<Rightarrow> 'd world \<Rightarrow> 'd ret" where
  "BindTexture e args w =
     (case PyArg_ParseTuple args (fmt conv_i (fmt conv_I fmt_end)) w of
        (None, w1) \<Rightarrow> (None, w1)
      | (Some (target, tex_id, _), w1) \<Rightarrow>
          let (r, w2) = native e glBindTexture [I32 target, I32 tex_id] w1;
              (failed, w3) = CHECK_ERROR e w2
          in if failed then (None, w3) else Py_RETURN_NONE w3)"

definition TexStorage3D :: "'d env \<Rightarrow> pyobj list \<Rightarrow> 'd world \<Rightarrow> 'd ret" where
  "TexStorage3D e args w =
     (case PyArg_ParseTuple args
             (fmt conv_i (fmt conv_I (fmt conv_i (fmt conv_I (fmt conv_I (fmt conv_I fmt_end))))))
             w of
        (None, w1) \<Rightarrow> (None, w1)
      | (Some (target, levels, fmt', width, height, depth, _), w1) \<Rightarrow>
          let w2 = Py_BEGIN_ALLOW_THREADS w1;
              (r, w3) = native e glTexStorage3D
                          [I32 target, I32 levels, I32 fmt', I32 width, I32 height, I32 depth] w2;
              w4 = Py_END_ALLOW_THREADS w3;
              (failed, w5) = CHECK_ERROR e w4
          in if failed then (None, w5) else Py_RETURN_NONE w5)"

definition CopyImageSubData :: "'d env \<Rightarrow> pyobj list \<Rightarrow> 'd world \<Rightarrow> 'd ret" where
  "CopyImageSubData e args w =
     (if apple e \<and> \<not> defined_glCopyImageSubData e then
        (None, PyErr_SetString RuntimeError
                 ''OpenGL is missing the required ARB_copy_image extension'' w)
      else if \<not> GLEW_ARB_copy_image e (driver w) then
        (None, PyErr_SetString RuntimeError
                 ''OpenGL is missing the required ARB_copy_image extension'' w)
      else
        (case PyArg_ParseTuple args
                (fmt conv_I (fmt conv_i (fmt conv_i (fmt conv_i (fmt conv_i (fmt conv_i
                (fmt conv_I (fmt conv_i (fmt conv_i (fmt conv_i (fmt conv_i (fmt conv_i
                (fmt conv_I (fmt conv_I (fmt conv_I fmt_end))))))))))))))) w of
           (None, w1) \<Rightarrow> (None, w1)
         | (Some (src, src_target, src_level, srcX, srcY, srcZ,
                  dest, dest_target, dest_level, destX, destY, destZ,
                  width, height, depth, _), w1) \<Rightarrow>
             let w2 = Py_BEGIN_ALLOW_THREADS w1;
                 (r, w3) = native e glCopyImageSubData
                             [I32 src, I32 src_target, I32 src_level, I32 srcX, I32 srcY, I32 srcZ,
                              I32 dest, I32 dest_target, I32 dest_level, I32 destX, I32 destY,
                              I32 destZ, I32 width, I32 height, I32 depth] w2;
                 w4 = Py_END_ALLOW_THREADS w3;
                 (failed, w5) = CHECK_ERROR e w4
             in if failed then (None, w5) else Py_RETURN_NONE w5))"

text \<open>
  The \<^verbatim>\<open>for\<close> loop of \<^verbatim>\<open>copy_image_sub_data\<close> on the scratch block:
  \<^verbatim>\<open>dest[i] = src[4*i]\<close> for \<open>i\<close> below \<open>n\<close>, where \<open>src\<close> is the start of the block,
  \<open>dest\<close> is \<open>src + off\<close> and \<open>4*i\<close> is computed in \<^verbatim>\<open>unsigned int\<close>. The result is
  \<open>None\<close> when an access falls outside the block.
\<close>

function copy_loop :: "32 word \<Rightarrow> 32 word \<Rightarrow> 32 word \<Rightarrow> string \<Rightarrow> string option" where
  "copy_loop i n off block =
     (if i < n then
        (if unat (4 * i) < length block \<and> unat off + unat i < length block then
           copy_loop (i + 1) n off (block[unat off + unat i := block ! unat (4 * i)])
         else None)
      else Some block)"
  by pat_completeness auto
termination
proof (relation "measure (\<lambda>(i, n, off, block). unat n - unat i)")
  show "wf (measure (\<lambda>(i, n, off, block). unat n - unat i))" by simp
next
  fix i n off :: "32 word" and block :: string
  assume "i < n"
  then have a: "unat i < unat n"
    by (simp add: word_less_nat_alt)
  have "unat n < 2 ^ 32"
    using unsigned_less [of n] by simp
  then have "unat i + 1 < 2 ^ 32"
    using a by simp
  then have "unat (i + 1) = unat i + 1"
    by (simp add: unat_word_ariths)
  then show "((i + 1, n, off, block[unat off + unat i := block ! unat (4 * i)]), i, n, off, block)
      \<in> measure (\<lambda>(i, n, off, block). unat n - unat i)"
    using a by simp
qed

declare copy_loop.simps [simp del]

text \<open>
  \<^verbatim>\<open>copy_image_sub_data\<close>. The three sizes are computed in \<^verbatim>\<open>unsigned int\<close>, so they
  wrap around. \<^verbatim>\<open>glGetTexImage\<close> writes the bytes of its reply from the start of the
  block, and \<^verbatim>\<open>glTexSubImage3D\<close>, for one byte per pixel at alignment 1, reads
  \<open>width * height * num_levels\<close> bytes from \<open>dest\<close>. The call is \<open>crashed\<close> when the
  driver's write, the loop or the driver's read goes outside the block.
\<close>

definition copy_image_sub_data :: "'d env \<Rightarrow> pyobj list \<Rightarrow> 'd world \<Rightarrow> 'd ret" where
  "copy_image_sub_data e args w =
     (case PyArg_ParseTuple args
             (fmt conv_i (fmt conv_i (fmt conv_I (fmt conv_I (fmt conv_I fmt_end))))) w of
        (None, w1) \<Rightarrow> (None, w1)
      | (Some (src_target, dest_target, width, height, num_levels, _), w1) \<Rightarrow>
          (case PyMem_Malloc (ucast (5 * width * height * num_levels)) w1 of
             (None, w2) \<Rightarrow> PyErr_NoMemory w2
           | (Some src, w2) \<Rightarrow>
               let off = 4 * width * height * num_levels;
                   w3 = Py_BEGIN_ALLOW_THREADS w2;
                   (r1, w4) = native e glBindTexture [I32 GL_TEXTURE_2D_ARRAY, I32 src_target] w3;
                   (r2, w5) = native e glGetTexImage
                                [I32 GL_TEXTURE_2D_ARRAY, I32 0, I32 GL_RGBA, I32 GL_UNSIGNED_BYTE,
                                 Buf src] w4
               in if length src < length (r_bytes r2) then (None, w5\<lparr>crashed := True\<rparr>)
                  else
                    let src = store src (r_bytes r2);
                        (r3, w6) = native e glBindTexture
                                     [I32 GL_TEXTURE_2D_ARRAY, I32 dest_target] w5;
                        (r4, w7) = native e glPixelStorei [I32 GL_UNPACK_ALIGNMENT, I32 1] w6
                    in case copy_loop 0 (width * height * num_levels) off src of
                         None \<Rightarrow> (None, w7\<lparr>crashed := True\<rparr>)
                       | Some src \<Rightarrow>
                           if length src < unat off + unat width * unat height * unat num_levels
                           then (None, w7\<lparr>crashed := True\<rparr>)
                           else
                             let (r5, w8) = native e glTexSubImage3D
                                              [I32 GL_TEXTURE_2D_ARRAY, I32 0, I32 0, I32 0, I32 0,
                                               I32 width, I32 height, I32 num_levels,
                                               I32 GL_RED, I32 GL_UNSIGNED_BYTE,
                                               Buf (drop (unat off) src)] w7;
                                 w9 = Py_END_ALLOW_THREADS w8;
                                 w10 = PyMem_Free w9
                             in Py_RETURN_NONE w10))"

definition TexSubImage3D :: "'d env \<Rightarrow> pyobj list \<Rightarrow> 'd world \<Rightarrow> 'd ret" where
  "TexSubImage3D e args w =
     (case PyArg_ParseTuple args
             (fmt conv_i (fmt conv_i (fmt conv_i (fmt conv_i (fmt conv_i
             (fmt conv_I (fmt conv_I (fmt conv_I (fmt conv_i (fmt conv_i
             (fmt conv_O_PyLong fmt_end))))))))))) w of
        (None, w1) \<Rightarrow> (None, w1)
      | (Some (target, level, x, y, z, width, height, depth, fmt', type, pixels, _), w1) \<Rightarrow>
          let (data, w2) = PyLong_AsVoidPtr pixels w1
          in if data = 0 then
               (None, PyErr_SetString TypeError ''Not a valid data pointer'' w2)
             else
               let w3 = Py_BEGIN_ALLOW_THREADS w2;
                   (r, w4) = native e glTexSubImage3D
                               [I32 target, I32 level, I32 x, I32 y, I32 z,
                                I32 width, I32 height, I32 depth, I32 fmt', I32 type, Ptr data] w3;
                   w5 = Py_END_ALLOW_THREADS w4;
                   (failed, w6) = CHECK_ERROR e w5
               in if failed then (None, w6) else Py_RETURN_NONE w6)"

definition GetTexImage :: "'d env \<Rightarrow> pyobj list \<Rightarrow> 'd world \<Rightarrow> 'd ret" where
  "GetTexImage e args w =
     (case PyArg_ParseTuple args
             (fmt conv_i (fmt conv_i (fmt conv_i (fmt conv_i (fmt conv_O_PyLong fmt_end))))) w of
        (None, w1) \<Rightarrow> (None, w1)
      | (Some (target, level, fmt', type, pixels, _), w1) \<Rightarrow>
          let (data, w2) = PyLong_AsVoidPtr pixels w1
          in if data = 0 then
               (None, PyErr_SetString TypeError ''Not a valid data pointer'' w2)
             else
               let w3 = Py_BEGIN_ALLOW_THREADS w2;
                   (r, w4) = native e glGetTexImage
                               [I32 target, I32 level, I32 fmt', I32 type, Ptr data] w3;
                   w5 = Py_END_ALLOW_THREADS w4;
                   (failed, w6) = CHECK_ERROR e w5
               in if failed then (None, w6) else Py_RETURN_NONE w6)"

text \<open>The three calls of the path without \<^verbatim>\<open>glNamedBufferData\<close>.\<close>

definition bind_and_buffer_data ::
  "'d env \<Rightarrow> 64 word \<Rightarrow> 64 word \<Rightarrow> 64 word \<Rightarrow> 32 word \<Rightarrow> 'd world \<Rightarrow> 'd world" where
  "bind_and_buffer_data e target size' data usage w =
     (let (r1, w1) = native e glBindBuffer [I32 GL_TEXTURE_BUFFER, I32 (ucast target)] w;
          (r2, w2) = native e glBufferData [I32 GL_TEXTURE_BUFFER, I64 size', Ptr data, I32 usage] w1;
          (r3, w3) = native e glBindBuffer [I32 GL_TEXTURE_BUFFER, I32 0] w2
      in w3)"

definition NamedBufferData :: "'d env \<Rightarrow> pyobj list \<Rightarrow> 'd world \<Rightarrow> 'd ret" where
  "NamedBufferData e args w =
     (case PyArg_ParseTuple args
             (fmt conv_k (fmt conv_k (fmt conv_O_PyLong (fmt conv_i fmt_end)))) w of
        (None, w1) \<Rightarrow> (None, w1)
      | (Some (target, size', address, usage, _), w1) \<Rightarrow>
          let (data, w2) = PyLong_AsVoidPtr address w1
          in if data = 0 then
               (None, PyErr_SetString TypeError ''Not a valid data pointer'' w2)
             else
               let w3 = Py_BEGIN_ALLOW_THREADS w2;
                   w4 = (if defined_glNamedBufferData e then
                           (if (if apple e then False else GLEW_VERSION_4_5 e (driver w3)) then
                              snd (native e glNamedBufferData
                                     [I32 (ucast target), I64 size', Ptr data, I32 usage] w3)
                            else bind_and_buffer_data e target size' data usage w3)
                         else bind_and_buffer_data e target size' data usage w3);
                   w5 = Py_END_ALLOW_THREADS w4;
                   (failed, w6) = CHECK_ERROR e w5
               in if failed then (None, w6) else Py_RETURN_NONE w6)"

definition TexParameteri :: "'d env \<Rightarrow> pyobj list \<Rightarrow> 'd world \<Rightarrow> 'd ret" where
  "TexParameteri e args w =
     (case PyArg_ParseTuple args (fmt conv_i (fmt conv_i (fmt conv_i fmt_end))) w of
        (None, w1) \<Rightarrow> (None, w1)
      | (Some (target, name, param, _), w1) \<Rightarrow>
          let (r, w2) = native e glTexParameteri [I32 target, I32 name, I32 param] w1;
              (failed, w3) = CHECK_ERROR e w2
          in if failed then (None, w3) else Py_RETURN_NONE w3)"

definition PixelStorei :: "'d env \<Rightarrow> pyobj list \<Rightarrow> 'd world \<Rightarrow> 'd ret" where
  "PixelStorei e args w =
     (case PyArg_ParseTuple args (fmt conv_i (fmt conv_i fmt_end)) w of
        (None, w1) \<Rightarrow> (None, w1)
      | (Some (name, param, _), w1) \<Rightarrow>
          let (r, w2) = native e glPixelStorei [I32 name, I32 param] w1;
              (failed, w3) = CHECK_ERROR e w2
          in if failed then (None, w3) else Py_RETURN_NONE w3)"

definition BindBuffer :: "'d env \<Rightarrow> pyobj list \<Rightarrow> 'd world \<Rightarrow> 'd ret" where
  "BindBuffer e args w =
     (case PyArg_ParseTuple args (fmt conv_i (fmt conv_I fmt_end)) w of
        (None, w1) \<Rightarrow> (None, w1)
      | (Some (tgt, buf_id, _), w1) \<Rightarrow>
          let (r, w2) = native e glBindBuffer [I32 tgt, I32 buf_id] w1;
              (failed, w3) = CHECK_ERROR e w2
          in if failed then (None, w3) else Py_RETURN_NONE w3)"

definition TexBuffer :: "'d env \<Rightarrow> pyobj list \<Rightarrow> 'd world \<Rightarrow> 'd ret" where
  "TexBuffer e args w =
     (case PyArg_ParseTuple args (fmt conv_i (fmt conv_i (fmt conv_I fmt_end))) w of
        (None, w1) \<Rightarrow> (None, w1)
      | (Some (tgt, fmt', buf_id, _), w1) \<Rightarrow>
          let (r, w2) = native e glTexBuffer [I32 tgt, I32 fmt', I32 buf_id] w1;
              (failed, w3) = CHECK_ERROR e w2
          in if failed then (None, w3) else Py_RETURN_NONE w3)"

definition DeleteTexture :: "'d env \<Rightarrow> pyobj \<Rightarrow> 'd world \<Rightarrow> 'd ret" where
  "DeleteTexture e val w =
     (let (v, w1) = PyLong_AsUnsignedLong val w;
          tex_id = (ucast v :: 32 word);
          (r, w2) = native e glDeleteTextures [I32 1, Arr [tex_id]] w1;
          (failed, w3) = CHECK_ERROR e w2
      in if failed then (None, w3) else Py_RETURN_NONE w3)"

definition DeleteBuffer :: "'d env \<Rightarrow> pyobj \<Rightarrow> 'd world \<Rightarrow> 'd ret" where
  "DeleteBuffer e val w =
     (let (v, w1) = PyLong_AsUnsignedLong val w;
          tex_id = (ucast v :: 32 word);
          (r, w2) = native e glDeleteBuffers [I32 1, Arr [tex_id]] w1;
          (failed, w3) = CHECK_ERROR e w2
      in if failed then (None, w3) else Py_RETURN_NONE w3)"

definition BlendFunc :: "'d env \<Rightarrow> pyobj list \<Rightarrow> 'd world \<Rightarrow> 'd ret" where
  "BlendFunc e args w =
     (case PyArg_ParseTuple args (fmt conv_i (fmt conv_i fmt_end)) w of
        (None, w1) \<Rightarrow> (None, w1)
      | (Some (s, d, _), w1) \<Rightarrow>
          let (r, w2) = native e glBlendFunc [I32 s, I32 d] w1;
              (failed, w3) = CHECK_ERROR e w2
          in if failed then (None, w3) else Py_RETURN_NONE w3)"

definition Enable :: "'d env \<Rightarrow> pyobj \<Rightarrow> 'd world \<Rightarrow> 'd ret" where
  "Enable e val w =
     (let (x, w1) = PyLong_AsLong val w;
          (r, w2) = native e glEnable [I32 (ucast x)] w1;
          (failed, w3) = CHECK_ERROR e w2
      in if failed then (None, w3) else Py_RETURN_NONE w3)"

definition Disable :: "'d env \<Rightarrow> pyobj \<Rightarrow> 'd world \<Rightarrow> 'd ret" where
  "Disable e val w =
     (let (x, w1) = PyLong_AsLong val w;
          (r, w2) = native e glDisable [I32 (ucast x)] w1;
          (failed, w3) = CHECK_ERROR e w2
      in if failed then (None, w3) else Py_RETURN_NONE w3)"

definition EnableVertexAttribArray :: "'d env \<Rightarrow> pyobj \<Rightarrow> 'd world \<Rightarrow> 'd ret" where
  "EnableVertexAttribArray e val w =
     (let (x, w1) = PyLong_AsLong val w;
          (r, w2) = native e glEnableVertexAttribArray [I32 (ucast x)] w1;
          (failed, w3) = CHECK_ERROR e w2
      in if failed then (None, w3) else Py_RETURN_NONE w3)"

definition VertexAttribPointer :: "'d env \<Rightarrow> pyobj list \<Rightarrow> 'd world \<Rightarrow> 'd ret" where
  "VertexAttribPointer e args w =
     (case PyArg_ParseTuple args
             (fmt conv_I (fmt conv_i (fmt conv_i (fmt conv_p (fmt conv_I
             (fmt conv_O_PyLong fmt_end)))))) w of
        (None, w1) \<Rightarrow> (None, w1)
      | (Some (index, size', type, normalized, stride, l, _), w1) \<Rightarrow>
          let (offset, w2) = PyLong_AsVoidPtr l w1;
              (r, w3) = native e glVertexAttribPointer
                          [I32 index, I32 size', I32 type, I32 normalized, I32 stride, Ptr offset]
                          w2;
              (failed, w4) = CHECK_ERROR e w3
          in if failed then (None, w4) else Py_RETURN_NONE w4)"

subsection \<open>The constant registry: \<^verbatim>\<open>add_module_gl_constants\<close>\<close>

text \<open>
  \<^verbatim>\<open>PyModule_AddIntConstant\<close> on the dictionary of the module: it allocates the integer
  and stores it under the name, or fails with \<^verbatim>\<open>MemoryError\<close> (\<open>False\<close> is the result
  \<^verbatim>\<open>-1\<close>).
\<close>

definition PyModule_AddIntConstant ::
  "(string \<rightharpoonup> int) \<Rightarrow> string \<Rightarrow> int \<Rightarrow> 'd world \<Rightarrow> bool \<times> (string \<rightharpoonup> int) \<times> 'd world" where
  "PyModule_AddIntConstant dict name v w =
     (case py_alloc w of
        (True, w1) \<Rightarrow>
          (True, dict(name \<mapsto> v), w1\<lparr>events := events w1 @ [AddIntConstant name v True]\<rparr>)
      | (False, w1) \<Rightarrow>
          (False, dict,
           snd (PyErr_NoMemory (w1\<lparr>events := events w1 @ [AddIntConstant name v False]\<rparr>))))"

text \<open>
  The \<^verbatim>\<open>GLC\<close> lines one after the other: each returns 0 at once when the publication
  fails. The result is the \<^verbatim>\<open>int\<close> that the function returns, the dictionary of the
  module and the state.
\<close>

fun GLC_lines ::
  "(string \<times> int) list \<Rightarrow> (string \<rightharpoonup> int) \<Rightarrow> 'd world \<Rightarrow> int \<times> (string \<rightharpoonup> int) \<times> 'd world" where
  "GLC_lines [] dict w = (1, dict, w)"
| "GLC_lines ((name, v) # rest) dict w =
     (case PyModule_AddIntConstant dict name v w of
        (False, dict1, w1) \<Rightarrow> (0, dict1, snd (PyErr_NoMemory w1))
      | (True, dict1, w1) \<Rightarrow> GLC_lines rest dict1 w1)"

definition add_module_gl_constants ::
  "(string \<rightharpoonup> int) \<Rightarrow> 'd world \<Rightarrow> int \<times> (string \<rightharpoonup> int) \<times> 'd world" where
  "add_module_gl_constants dict w = GLC_lines gl_constants dict w"

subsection \<open>The method table: \<^verbatim>\<open>GL_METHODS\<close>\<close>

text \<open>
  A row of the table: the calling convention with the function. The interpreter calls a
  \<^verbatim>\<open>METH_O\<close> function with exactly one argument, a \<^verbatim>\<open>METH_NOARGS\<close> function with none
  and a \<^verbatim>\<open>METH_VARARGS\<close> function with the tuple of the arguments; a call with another
  number of arguments is a \<^verbatim>\<open>TypeError\<close> of the interpreter and does not reach the
  function.
\<close>

datatype 'd meth =
    METH_O "pyobj \<Rightarrow> 'd world \<Rightarrow> pyobj option \<times> 'd world"
  | METH_NOARGS "'d world \<Rightarrow> pyobj option \<times> 'd world"
  | METH_VARARGS "pyobj list \<Rightarrow> 'd world \<Rightarrow> pyobj option \<times> 'd world"

definition GL_METHODS :: "'d env \<Rightarrow> (string \<times> 'd meth) list" where
  "GL_METHODS e =
     [(''enable_automatic_opengl_error_checking'', METH_O enable_automatic_error_checking),
      (''copy_image_sub_data'', METH_VARARGS (copy_image_sub_data e)),
      (''glewInit'', METH_NOARGS (glewInit_meth e)),
      (''glViewport'', METH_VARARGS (Viewport e)),
      (''glCheckError'', METH_NOARGS (CheckError e)),
      (''glClearColor'', METH_VARARGS (ClearColor e)),
      (''glGetProgramiv'', METH_VARARGS (GetProgramiv e)),
      (''glGetShaderiv'', METH_VARARGS (GetShaderiv e)),
      (''glUniform2ui'', METH_VARARGS (Uniform2ui e)),
      (''glUniform1i'', METH_VARARGS (Uniform1i e)),
      (''glUniform2f'', METH_VARARGS (Uniform2f e)),
      (''glUniform4f'', METH_VARARGS (Uniform4f e)),
      (''glUniform3fv'', METH_VARARGS (Uniform3fv e)),
      (''glGetUniformLocation'', METH_VARARGS (GetUniformLocation e)),
      (''glGetAttribLocation'', METH_VARARGS (GetAttribLocation e)),
      (''glShaderSource'', METH_VARARGS (ShaderSource e)),
      (''glCompileShader'', METH_O (CompileShader e)),
      (''glDeleteTexture'', METH_O (DeleteTexture e)),
      (''glDeleteBuffer'', METH_O (DeleteBuffer e)),
      (''glGetString'', METH_O (GetString e)),
      (''glGetIntegerv'', METH_O (GetIntegerv e)),
      (''glClear'', METH_O (Clear e)),
      (''glCreateShader'', METH_O (CreateShader e)),
      (''glGenVertexArrays'', METH_O (GenVertexArrays e)),
      (''glGenTextures'', METH_O (GenTextures e)),
      (''glGenBuffers'', METH_O (GenBuffers e)),
      (''glLinkProgram'', METH_O (LinkProgram e)),
      (''glUseProgram'', METH_O (UseProgram e)),
      (''glBindVertexArray'', METH_O (BindVertexArray e)),
      (''glDeleteProgram'', METH_O (DeleteProgram e)),
      (''glDeleteShader'', METH_O (DeleteShader e)),
      (''glEnable'', METH_O (Enable e)),
      (''glDisable'', METH_O (Disable e)),
      (''glEnableVertexAttribArray'', METH_O (EnableVertexAttribArray e)),
      (''glVertexAttribPointer'', METH_VARARGS (VertexAttribPointer e)),
      (''glGetProgramInfoLog'', METH_O (GetProgramInfoLog e)),
      (''glGetShaderInfoLog'', METH_O (GetShaderInfoLog e)),
      (''glActiveTexture'', METH_O (ActiveTexture e)),
      (''glDrawArraysInstanced'', METH_VARARGS (DrawArraysInstanced e)),
      (''glDrawArrays'', METH_VARARGS (DrawArrays e)),
      (''glMultiDrawArrays'', METH_VARARGS (MultiDrawArrays e)),
      (''glCreateProgram'', METH_NOARGS (CreateProgram e)),
      (''glAttachShader'', METH_VARARGS (AttachShader e)),
      (''glBindTexture'', METH_VARARGS (BindTexture e)),
      (''glTexParameteri'', METH_VARARGS (TexParameteri e)),
      (''glPixelStorei'', METH_VARARGS (PixelStorei e)),
      (''glBindBuffer'', METH_VARARGS (BindBuffer e)),
      (''glTexBuffer'', METH_VARARGS (TexBuffer e)),
      (''glTexStorage3D'', METH_VARARGS (TexStorage3D e)),
      (''glCopyImageSubData'', METH_VARARGS (CopyImageSubData e)),
      (''glTexSubImage3D'', METH_VARARGS (TexSubImage3D e)),
      (''glGetTexImage'', METH_VARARGS (GetTexImage e)),
      (''glNamedBufferData'', METH_VARARGS (NamedBufferData e)),
      (''glBlendFunc'', METH_VARARGS (BlendFunc e))]"

text \<open>A call of a row by the interpreter.\<close>

definition call_meth :: "'d meth \<Rightarrow> pyobj list \<Rightarrow> 'd world \<Rightarrow> pyobj option \<times> 'd world" where
  "call_meth m args w =
     (case m of
        METH_O f \<Rightarrow>
          (case args of
             [x] \<Rightarrow> f x w
           | _ \<Rightarrow> (None, PyErr_SetString TypeError ''function takes exactly one argument'' w))
      | METH_NOARGS f \<Rightarrow>
          (case args of
             [] \<Rightarrow> f w
           | _ \<Rightarrow> (None, PyErr_SetString TypeError ''function takes no arguments'' w))
      | METH_VARARGS f \<Rightarrow> f args w)"

text \<open>A call of the module's attribute \<open>name\<close>, if the table has it.\<close>

definition call_method ::
  "'d env \<Rightarrow> string \<Rightarrow> pyobj list \<Rightarrow> 'd world \<Rightarrow> (pyobj option \<times> 'd world) option" where
  "call_method e name args w =
     (case map_of (GL_METHODS e) name of
        None \<Rightarrow> None
      | Some m \<Rightarrow> Some (call_meth m args w))"

text \<open>
  The text that \<^verbatim>\<open>GetProgramInfoLog\<close> and \<^verbatim>\<open>GetShaderInfoLog\<close> share, with the two native
  entry points as parameters. It is not in the source: it serves to prove a fact about the
  two functions at once (each is shown equal to an instance of it).
\<close>

definition info_log_common ::
  "gl_fn \<Rightarrow> gl_fn \<Rightarrow> 'd env \<Rightarrow> pyobj \<Rightarrow> 'd world \<Rightarrow> pyobj option \<times> 'd world" where
  "info_log_common q g e val w =
     (let (program_id, w1) = PyLong_AsUnsignedLong val w;
          log_len = 0;
          (r, w2) = native e q [I32 (ucast program_id), I32 GL_INFO_LOG_LENGTH, Cell log_len] w1;
          log_len = r_cell r
      in case PyMem_Calloc (scast (log_len + 10)) w2 of
           (None, w3) \<Rightarrow> PyErr_NoMemory w3
         | (Some buf, w3) \<Rightarrow>
             let (r', w4) = native e g
                              [I32 (ucast program_id), I32 log_len, Cell log_len, Buf buf] w3;
                 log_len = r_cell r';
                 buf = store buf (r_bytes r');
                 (ans, w5) = PyBytes_FromStringAndSize buf (scast log_len) w4;
                 w6 = PyMem_Free w5
             in (ans, w6))"

text \<open>The dictionary after the publication of a list of constants, in order.\<close>

definition published :: "(string \<times> int) list \<Rightarrow> (string \<rightharpoonup> int) \<Rightarrow> (string \<rightharpoonup> int)" where
  "published tab dict = fold (\<lambda>(name, v) m. m(name \<mapsto> v)) tab dict"

text \<open>The events of the successful publication of a list of constants.\<close>

definition published_events :: "(string \<times> int) list \<Rightarrow> ev list" where
  "published_events tab = map (\<lambda>(name, v). AddIntConstant name v True) tab"

subsection \<open>Predicates on the trace\<close>








subsection \<open>A simulated driver\<close>

text \<open>
  A small driver for the concrete instances of the theorems. It hands out consecutive
  handles, reports the pending error codes one per \<^verbatim>\<open>glGetError\<close>, keeps one info log
  for every program and shader, knows the string \<^verbatim>\<open>GL_VERSION\<close> only, and does nothing
  else.
\<close>

record sim =
  next_handle :: nat
  pending :: "32 word list"
  info_log :: string
  glew_status :: "32 word"
  has_texture_storage :: bool
  has_rgb32 :: bool

definition reply0 :: gl_reply where
  "reply0 = \<lparr>r_val = 0, r_str = None, r_cell = 0, r_bytes = [], r_handles = []\<rparr>"

definition sim_gen :: "32 word \<Rightarrow> sim \<Rightarrow> gl_reply \<times> sim" where
  "sim_gen n d =
     (reply0\<lparr>r_handles := map (\<lambda>i. of_nat (next_handle d + i)) [0..<unat n]\<rparr>,
      d\<lparr>next_handle := next_handle d + unat n\<rparr>)"

definition sim_get_iv :: "32 word \<Rightarrow> 32 word \<Rightarrow> sim \<Rightarrow> gl_reply \<times> sim" where
  "sim_get_iv pname cell d =
     (if pname = GL_INFO_LOG_LENGTH then
        (reply0\<lparr>r_cell := (if info_log d = [] then 0 else of_nat (length (info_log d) + 1))\<rparr>, d)
      else (reply0\<lparr>r_cell := cell\<rparr>, d))"

definition sim_get_info_log :: "32 word \<Rightarrow> sim \<Rightarrow> gl_reply \<times> sim" where
  "sim_get_info_log max_length d =
     (if max_length = 0 then (reply0, d)
      else
        (let text = take (unat max_length - 1) (info_log d)
         in (reply0\<lparr>r_cell := of_nat (length text), r_bytes := text @ [CHR 0x00]\<rparr>, d)))"

definition sim_gl :: "sim driver" where
  "sim_gl f as d =
     (if f = glGetError then
        (case pending d of
           [] \<Rightarrow> (reply0, d)
         | c # cs \<Rightarrow> (reply0\<lparr>r_val := c\<rparr>, d\<lparr>pending := cs\<rparr>))
      else if f = glGenVertexArrays \<or> f = glGenTextures \<or> f = glGenBuffers then
        (case as of I32 n # rest \<Rightarrow> sim_gen n d | _ \<Rightarrow> (reply0, d))
      else if f = glewInit then (reply0\<lparr>r_val := glew_status d\<rparr>, d)
      else if f = glGetProgramiv \<or> f = glGetShaderiv then
        (case as of [I32 h, I32 pname, Cell c] \<Rightarrow> sim_get_iv pname c d | _ \<Rightarrow> (reply0, d))
      else if f = glGetProgramInfoLog \<or> f = glGetShaderInfoLog then
        (case as of
           [I32 h, I32 max_length, Cell c, Buf b] \<Rightarrow> sim_get_info_log max_length d
         | _ \<Rightarrow> (reply0, d))
      else if f = glGetString then
        (case as of
           [I32 name] \<Rightarrow>
             if name = 0x1F02 then (reply0\<lparr>r_str := Some ''4.5''\<rparr>, d) else (reply0, d)
         | _ \<Rightarrow> (reply0, d))
      else (reply0, d))"

definition sim_env :: "sim env" where
  "sim_env =
     \<lparr>apple = False, defined_glCopyImageSubData = True, defined_glNamedBufferData = True,
      gl = sim_gl,
      GLEW_ARB_texture_storage = has_texture_storage,
      GLEW_ARB_texture_buffer_object_rgb32 = has_rgb32,
      GLEW_ARB_copy_image = (\<lambda>d. True),
      GLEW_VERSION_4_5 = (\<lambda>d. True),
      glewGetErrorString = (\<lambda>c. ''Missing GL version'')\<rparr>"

definition sim0 :: sim where
  "sim0 = \<lparr>next_handle = 7, pending = [], info_log = ''ok'', glew_status = 0,
           has_texture_storage = True, has_rgb32 = True\<rparr>"

text \<open>The state after the load of the module, with the given error codes pending.\<close>

definition sim_pending :: "32 word list \<Rightarrow> sim world" where
  "sim_pending cs = module_load (sim0\<lparr>pending := cs\<rparr>)"

text \<open>The state after a failed bootstrap, once the caller has caught the exception.\<close>

definition after_failed_bootstrap :: "sim world" where
  "after_failed_bootstrap =
     (snd (glewInit_meth sim_env (module_load (sim0\<lparr>has_texture_storage := False\<rparr>))))
       \<lparr>py_err := None\<rparr>"

section \<open>Properties\<close>

lemma py_alloc_ok:
  "allocs_ok w \<Longrightarrow> py_alloc w = (True, w\<lparr>mem_plan := tl (mem_plan w)\<rparr>)"
  by (cases "mem_plan w") (auto simp: py_alloc_def allocs_ok_def)

lemma allocs_ok_tl: "allocs_ok w \<Longrightarrow> allocs_ok (w\<lparr>mem_plan := drop k (mem_plan w)\<rparr>)"
  by (auto simp: allocs_ok_def dest: in_set_dropD)

lemma uint_ucast_32_64: "uint (ucast (x :: 32 word) :: 64 word) = uint x"
  by (simp add: uint_up_ucast is_up)

lemma gen_loop_ok:
  "allocs_ok w \<Longrightarrow> i \<le> n \<Longrightarrow>
   gen_loop arrays n i ans w =
     (Some (PyTuple (ans @ map (\<lambda>j. PyLong (uint (arrays ! j))) [i..<n])),
      w\<lparr>mem_plan := drop (n - i) (mem_plan w)\<rparr>)"
proof (induction arrays n i ans w rule: gen_loop.induct)
  case (1 arrays n i ans w)
  show ?case
  proof (cases "i < n")
    case False
    with "1.prems" show ?thesis by (simp add: gen_loop.simps)
  next
    case True
    let ?w1 = "w\<lparr>mem_plan := tl (mem_plan w)\<rparr>"
    have a: "PyLong_FromUnsignedLong (ucast (arrays ! i)) w = (Some (PyLong (uint (arrays ! i))), ?w1)"
      using "1.prems"(1) by (simp add: PyLong_FromUnsignedLong_def py_alloc_ok uint_ucast_32_64)
    have ok1: "allocs_ok ?w1"
      using allocs_ok_tl [OF "1.prems"(1), of 1] by (simp add: drop_Suc)
    have ih: "gen_loop arrays n (Suc i) (ans @ [PyLong (uint (arrays ! i))]) ?w1 =
        (Some (PyTuple ((ans @ [PyLong (uint (arrays ! i))]) @ map (\<lambda>j. PyLong (uint (arrays ! j))) [Suc i..<n])),
         ?w1\<lparr>mem_plan := drop (n - Suc i) (mem_plan ?w1)\<rparr>)"
      using "1.IH" [OF True a [symmetric] refl ok1] True by simp
    have d: "drop (n - Suc i) (tl (mem_plan w)) = drop (n - i) (mem_plan w)"
      using True by (simp add: drop_Suc [symmetric] Suc_diff_Suc tl_drop drop_tl)
    show ?thesis
      using True by (subst gen_loop.simps) (simp add: a ih d upt_conv_Cons)
  qed
qed

lemma count_word:
  assumes "0 \<le> N" "N \<le> 256"
  shows "\<not> (word_of_int N :: 64 word) > 256"
    and "unat (word_of_int N :: 64 word) = nat N"
    and "(ucast (word_of_int N :: 64 word) :: 32 word) = word_of_int N"
    and "((word_of_int N :: 64 word) = 1) = (N = 1)"
proof -
  have u: "uint (word_of_int N :: 64 word) = N"
    using assms by (simp add: uint_word_of_int take_bit_int_eq_self)
  show "\<not> (word_of_int N :: 64 word) > 256"
    using assms u by (simp add: word_less_def)
  show "unat (word_of_int N :: 64 word) = nat N"
    using u by (simp add: unat_eq_nat_uint)
  show "(ucast (word_of_int N :: 64 word) :: 32 word) = word_of_int N"
    using u by (simp add: word_uint_eq_iff unsigned_ucast_eq uint_word_of_int take_bit_eq_mod)
  show "((word_of_int N :: 64 word) = 1) = (N = 1)"
    using u by (metis uint_1 word_of_int_1)
qed

lemma PyLong_AsUnsignedLong_count:
  "0 \<le> N \<Longrightarrow> N \<le> 256 \<Longrightarrow> PyLong_AsUnsignedLong (PyLong N) w = (word_of_int N, w)"
  by (simp add: PyLong_AsUnsignedLong_def)

lemma CHECK_ERROR_pass:
  assumes "py_err w = None"
    and "enable_error_checking w = 0 \<or> r_val (fst (gl e glGetError [] (driver w))) = GL_NO_ERROR"
  shows "CHECK_ERROR e w =
           (False, if enable_error_checking w = 0 then w else snd (native e glGetError [] w))"
  using assms
  by (auto simp: CHECK_ERROR_def SET_GL_ERR_def SET_GL_ERR_switch_def native_def
        PyErr_Occurred_def split: prod.splits)

lemma native_fst: "fst (native e f as w) = fst (gl e f as (driver w))"
  and native_events: "events (snd (native e f as w)) =
      events w @ [Native f as (gil_held w) (fst (gl e f as (driver w)))]"
  and native_driver: "driver (snd (native e f as w)) = snd (gl e f as (driver w))"
  and native_py_err: "py_err (snd (native e f as w)) = py_err w"
  and native_flag: "enable_error_checking (snd (native e f as w)) = enable_error_checking w"
  and native_gil: "gil_held (snd (native e f as w)) = gil_held w"
  and native_plan: "mem_plan (snd (native e f as w)) = mem_plan w"
  and native_live: "live (snd (native e f as w)) = live w"
  by (simp_all add: native_def split_def Let_def)

lemma allocs_ok_native: "allocs_ok (snd (native e f as w)) = allocs_ok w"
  by (simp add: allocs_ok_def native_plan)

lemma PyTuple_New_ok:
  "allocs_ok w \<Longrightarrow> PyTuple_New n w = (True, w\<lparr>mem_plan := tl (mem_plan w)\<rparr>)"
  by (simp add: PyTuple_New_def py_alloc_ok)

lemma PyLong_FromUnsignedLong_ok:
  "allocs_ok w \<Longrightarrow>
   PyLong_FromUnsignedLong v w = (Some (PyLong (uint v)), w\<lparr>mem_plan := tl (mem_plan w)\<rparr>)"
  by (simp add: PyLong_FromUnsignedLong_def py_alloc_ok)

lemma allocs_ok_tl1: "allocs_ok w \<Longrightarrow> allocs_ok (w\<lparr>mem_plan := tl (mem_plan w)\<rparr>)"
  using allocs_ok_tl [of w 1] by (simp add: drop_Suc)

text \<open>The part of the three functions after the native call and the error check.\<close>

lemma gen_result_ok:
  assumes "allocs_ok w" "0 \<le> N" "N \<le> 256"
  shows "\<exists>w'. (if (word_of_int N :: 64 word) = 1 then PyLong_FromUnsignedLong (ucast (arr ! 0)) w
          else (case PyTuple_New (unat (word_of_int N :: 64 word)) w of
                  (False, w4) \<Rightarrow> PyErr_NoMemory w4
                | (True, w4) \<Rightarrow> gen_loop arr (unat (word_of_int N :: 64 word)) 0 [] w4)) =
         (Some (if N = 1 then PyLong (uint (arr ! 0))
                else PyTuple (map (\<lambda>i. PyLong (uint (arr ! i))) [0..<nat N])), w')
       \<and> events w' = events w \<and> py_err w' = py_err w \<and> driver w' = driver w
       \<and> enable_error_checking w' = enable_error_checking w \<and> gil_held w' = gil_held w
       \<and> live w' = live w"
proof (cases "N = 1")
  case True
  then show ?thesis
    using assms by (simp add: PyLong_FromUnsignedLong_ok uint_ucast_32_64)
next
  case False
  then show ?thesis
    using assms
    by (simp add: count_word PyTuple_New_ok gen_loop_ok allocs_ok_tl1)
qed

lemma Gen_common:
  "GenVertexArrays =
     gen_common glGenVertexArrays
       ''Generating more than 256 arrays in a single call is not supported''"
  "GenTextures =
     gen_common glGenTextures
       ''Generating more than 256 textures in a single call is not supported''"
  "GenBuffers =
     gen_common glGenBuffers
       ''Generating more than 256 buffers in a single call is not supported''"
  by (simp_all add: fun_eq_iff GenVertexArrays_def GenTextures_def GenBuffers_def
        gen_common_def)

lemma gen_common_ok:
  fixes e :: "'d env" and w :: "'d world"
  assumes N: "0 \<le> N" "N \<le> 256"
    and clean: "py_err w = None"
    and mem: "allocs_ok w"
    and rd: "gl e g [I32 (word_of_int N), Arr (replicate 256 0)] (driver w) = (r, d1)"
    and chk: "enable_error_checking w = 0 \<or> r_val (fst (gl e glGetError [] d1)) = GL_NO_ERROR"
    and arr: "arr = store (replicate 256 0) (r_handles r)"
  shows "\<exists>w'. gen_common g msg e (PyLong N) w =
           (Some (if N = 1 then PyLong (uint (arr ! 0))
                  else PyTuple (map (\<lambda>i. PyLong (uint (arr ! i))) [0..<nat N])), w')
         \<and> events w' = events w @ Native g [I32 (word_of_int N), Arr (replicate 256 0)] (gil_held w) r
              # (if enable_error_checking w = 0 then []
                 else [Native glGetError [] (gil_held w) (fst (gl e glGetError [] d1))])
         \<and> py_err w' = None"
proof -
  let ?as = "[I32 (word_of_int N), Arr (replicate 256 0)]"
  define w2 where "w2 = snd (native e g ?as w)"
  define w3 where "w3 = (if enable_error_checking w = 0 then w2 else snd (native e glGetError [] w2))"
  have r: "native e g ?as w = (r, w2)"
    using native_fst [of e g ?as w] by (simp add: rd prod_eq_iff w2_def)
  have d2: "driver w2 = d1"
    by (simp add: native_driver rd w2_def)
  have p2: "py_err w2 = None" "enable_error_checking w2 = enable_error_checking w"
    using clean by (simp_all add: native_py_err native_flag w2_def)
  have c: "CHECK_ERROR e w2 = (False, w3)"
    using CHECK_ERROR_pass [of w2 e] chk by (simp add: p2 d2 w3_def)
  have ok3: "allocs_ok w3"
    using mem by (simp add: allocs_ok_native w2_def w3_def)
  have ev3: "events w3 = events w @ Native g ?as (gil_held w) r
              # (if enable_error_checking w = 0 then []
                 else [Native glGetError [] (gil_held w) (fst (gl e glGetError [] d1))])"
    by (simp add: native_events native_gil native_driver rd w2_def w3_def)
  have err3: "py_err w3 = None"
    using clean by (simp add: native_py_err w2_def w3_def)
  obtain w' where res: "(if (word_of_int N :: 64 word) = 1 then PyLong_FromUnsignedLong (ucast (arr ! 0)) w3
          else (case PyTuple_New (unat (word_of_int N :: 64 word)) w3 of
                  (False, w4) \<Rightarrow> PyErr_NoMemory w4
                | (True, w4) \<Rightarrow> gen_loop arr (unat (word_of_int N :: 64 word)) 0 [] w4)) =
         (Some (if N = 1 then PyLong (uint (arr ! 0))
                else PyTuple (map (\<lambda>i. PyLong (uint (arr ! i))) [0..<nat N])), w')"
     and w': "events w' = events w3" "py_err w' = py_err w3"
    using gen_result_ok [OF ok3 N, of arr] by blast
  have run: "gen_common g msg e (PyLong N) w =
     (if (word_of_int N :: 64 word) = 1 then PyLong_FromUnsignedLong (ucast (arr ! 0)) w3
          else (case PyTuple_New (unat (word_of_int N :: 64 word)) w3 of
                  (False, w4) \<Rightarrow> PyErr_NoMemory w4
                | (True, w4) \<Rightarrow> gen_loop arr (unat (word_of_int N :: 64 word)) 0 [] w4))"
    unfolding gen_common_def arr
    using N by (simp add: PyLong_AsUnsignedLong_count count_word(1,3) r c del: One_nat_def)
  show ?thesis
  proof (intro exI conjI)
    show "gen_common g msg e (PyLong N) w =
           (Some (if N = 1 then PyLong (uint (arr ! 0))
                  else PyTuple (map (\<lambda>i. PyLong (uint (arr ! i))) [0..<nat N])), w')"
      using run res by simp
    show "events w' = events w @ Native g ?as (gil_held w) r
              # (if enable_error_checking w = 0 then []
                 else [Native glGetError [] (gil_held w) (fst (gl e glGetError [] d1))])"
      using w'(1) ev3 by simp
    show "py_err w' = None"
      using w'(2) err3 by simp
  qed
qed

lemma store_exact:
  "length written = n \<Longrightarrow> n \<le> length buf \<Longrightarrow> map (\<lambda>i. store buf written ! i) [0..<n] = written"
  by (auto simp: store_def nth_append intro!: nth_equalityI)

lemma gen_common_too_many:
  assumes "256 < N"
  shows "gen_common g msg e (PyLong N) w = (None, w\<lparr>py_err := Some (ValueError, msg)\<rparr>)"
proof (cases "N < 2 ^ 64")
  case True
  then have "uint (word_of_int N :: 64 word) = N"
    using assms by (simp add: uint_word_of_int take_bit_int_eq_self)
  then have big: "(word_of_int N :: 64 word) > 256"
    using assms by (simp add: word_less_def)
  have "PyLong_AsUnsignedLong (PyLong N) w = (word_of_int N, w)"
    using True assms by (simp add: PyLong_AsUnsignedLong_def)
  then show ?thesis
    using big by (simp add: gen_common_def PyErr_SetString_def)
next
  case False
  have big: "(- 1 :: 64 word) > 256" by simp
  have "PyLong_AsUnsignedLong (PyLong N) w =
      (- 1, PyErr_SetString OverflowError
              ''Python int too large to convert to C unsigned long'' w)"
    using False assms by (simp add: PyLong_AsUnsignedLong_def)
  then show ?thesis
    using big by (simp add: gen_common_def PyErr_SetString_def)
qed

subsection \<open>Batch allocation\<close>

text \<open>
  C1. For a requested count \<open>N\<close> with \<open>1 \<le> N \<le> 256\<close>, each of \<^verbatim>\<open>GenVertexArrays\<close>,
  \<^verbatim>\<open>GenTextures\<close> and \<^verbatim>\<open>GenBuffers\<close> issues exactly one native generate call, with
  the count \<open>N\<close> and the zeroed array, followed only by the \<^verbatim>\<open>glGetError\<close> of the
  error check when checking is enabled, and returns the first \<open>N\<close> items of the array as
  the driver left it, in order: the scalar \<open>arr[0]\<close> when \<open>N = 1\<close>, a tuple of length
  \<open>N\<close> otherwise; the items are the handles the driver wrote when it wrote \<open>N\<close> of
  them. The call is made by the interpreter (no exception pending), the error check
  passes (checking is disabled or the driver reports no error) and the Python heap
  allocates the result.
\<close>

theorem batch_allocation_returns_handles:
  fixes e :: "'d env" and w :: "'d world"
  assumes "1 \<le> N" and "N \<le> 256"
    and "(f, g) \<in> {(GenVertexArrays, glGenVertexArrays), (GenTextures, glGenTextures),
                    (GenBuffers, glGenBuffers)}"
    and "py_err w = None" and "allocs_ok w"
    and "enable_error_checking w = 0 \<or>
         r_val (fst (gl e glGetError []
           (snd (gl e g [I32 (word_of_int N), Arr (replicate 256 0)] (driver w))))) = GL_NO_ERROR"
  shows
    "let call = gl e g [I32 (word_of_int N), Arr (replicate 256 0)] (driver w);
         arr = store (replicate 256 0) (r_handles (fst call))
     in \<exists>w'. f e (PyLong N) w =
            (Some (if N = 1 then PyLong (uint (arr ! 0))
                   else PyTuple (map (\<lambda>i. PyLong (uint (arr ! i))) [0..<nat N])), w')
          \<and> events w' =
              events w @
              Native g [I32 (word_of_int N), Arr (replicate 256 0)] (gil_held w) (fst call) #
              (if enable_error_checking w = 0 then []
               else [Native glGetError [] (gil_held w) (fst (gl e glGetError [] (snd call)))])
          \<and> py_err w' = None
          \<and> length (map (\<lambda>i. arr ! i) [0..<nat N]) = nat N
          \<and> (length (r_handles (fst call)) = nat N \<longrightarrow>
               map (\<lambda>i. arr ! i) [0..<nat N] = r_handles (fst call))"
proof -
  obtain r d1 where rd: "gl e g [I32 (word_of_int N), Arr (replicate 256 0)] (driver w) = (r, d1)"
    by (cases "gl e g [I32 (word_of_int N), Arr (replicate 256 0)] (driver w)")
  have f: "\<exists>msg. f = gen_common g msg"
    using assms(3) by (auto simp: Gen_common)
  then obtain msg where f: "f = gen_common g msg" ..
  define arr where "arr = store (replicate 256 0) (r_handles r)"
  have ex: "length (r_handles r) = nat N \<longrightarrow> map (\<lambda>i. arr ! i) [0..<nat N] = r_handles r"
    unfolding arr_def using assms(2) by (intro impI store_exact) simp_all
  have chk: "enable_error_checking w = 0 \<or> r_val (fst (gl e glGetError [] d1)) = GL_NO_ERROR"
    using assms(6) by (simp add: rd)
  have N0: "0 \<le> N" using assms(1) by simp
  obtain w' where
    "gen_common g msg e (PyLong N) w =
       (Some (if N = 1 then PyLong (uint (arr ! 0))
              else PyTuple (map (\<lambda>i. PyLong (uint (arr ! i))) [0..<nat N])), w')"
    "events w' = events w @ Native g [I32 (word_of_int N), Arr (replicate 256 0)] (gil_held w) r
              # (if enable_error_checking w = 0 then []
                 else [Native glGetError [] (gil_held w) (fst (gl e glGetError [] d1))])"
    "py_err w' = None"
    using gen_common_ok [OF N0 assms(2) assms(4) assms(5) rd chk arr_def, of msg] by blast
  then show ?thesis
    unfolding Let_def rd fst_conv snd_conv f arr_def [symmetric]
    using ex by (intro exI [of _ w']) simp
qed

theorem batch_allocation_returns_handles_witness:
  "\<exists>w'. GenTextures sim_env (PyLong 3) (module_load sim0) =
          (Some (PyTuple [PyLong 7, PyLong 8, PyLong 9]), w')
        \<and> events w' =
            [Native glGenTextures [I32 3, Arr (replicate 256 0)] True
               (reply0\<lparr>r_handles := [7, 8, 9]\<rparr>),
             Native glGetError [] True reply0]"
proof -
  have u: "[0..<3] = [0, 1, 2 :: nat]" by code_simp
  show ?thesis
    using batch_allocation_returns_handles
            [of 3 GenTextures glGenTextures "module_load sim0" sim_env]
    by (simp add: module_load_def allocs_ok_def sim_env_def sim0_def sim_gl_def sim_gen_def GL_NO_ERROR_def reply0_def
          store_def Let_def u) blast
qed

text \<open>
  C2. For a requested count \<open>N > 256\<close> (however large), each of the three functions
  returns \<^verbatim>\<open>NULL\<close> with \<^verbatim>\<open>ValueError\<close> set and changes nothing else: the trace and
  the driver state are as before, so no native call is issued and no handle is generated.
\<close>

theorem batch_allocation_rejects_over_256:
  assumes "256 < N"
    and "(f, msg) \<in>
      {(GenVertexArrays, ''Generating more than 256 arrays in a single call is not supported''),
       (GenTextures, ''Generating more than 256 textures in a single call is not supported''),
       (GenBuffers, ''Generating more than 256 buffers in a single call is not supported'')}"
  shows "f e (PyLong N) w = (None, w\<lparr>py_err := Some (ValueError, msg)\<rparr>)
       \<and> events (snd (f e (PyLong N) w)) = events w
       \<and> driver (snd (f e (PyLong N) w)) = driver w"
proof -
  have "f = gen_common glGenVertexArrays msg \<or> f = gen_common glGenTextures msg
      \<or> f = gen_common glGenBuffers msg"
    using assms(2) by (auto simp: Gen_common)
  then have "f e (PyLong N) w = (None, w\<lparr>py_err := Some (ValueError, msg)\<rparr>)"
    using gen_common_too_many [OF assms(1)] by auto
  then show ?thesis by simp
qed

theorem batch_allocation_rejects_over_256_witness:
  "GenBuffers sim_env (PyLong 257) (module_load sim0) =
     (None, (module_load sim0)
        \<lparr>py_err := Some (ValueError,
           ''Generating more than 256 buffers in a single call is not supported'')\<rparr>)
   \<and> events (snd (GenBuffers sim_env (PyLong 257) (module_load sim0))) = []"
  using batch_allocation_rejects_over_256
          [of 257 GenBuffers
              "''Generating more than 256 buffers in a single call is not supported''"
              sim_env "module_load sim0"]
  by (simp add: module_load_def)

text \<open>
  C10. For the requested count 0, each of the three functions issues the native generate
  call with the count 0 and returns the empty tuple, neither a scalar nor an error, under
  the conditions of C1: no exception pending at the call, the error check passes, the
  Python heap allocates the tuple.
\<close>

theorem batch_allocation_of_zero:
  fixes e :: "'d env" and w :: "'d world"
  assumes "(f, g) \<in> {(GenVertexArrays, glGenVertexArrays), (GenTextures, glGenTextures),
                     (GenBuffers, glGenBuffers)}"
    and "py_err w = None" and "allocs_ok w"
    and "enable_error_checking w = 0 \<or>
         r_val (fst (gl e glGetError []
           (snd (gl e g [I32 0, Arr (replicate 256 0)] (driver w))))) = GL_NO_ERROR"
  shows
    "let call = gl e g [I32 0, Arr (replicate 256 0)] (driver w)
     in \<exists>w'. f e (PyLong 0) w = (Some (PyTuple []), w')
          \<and> events w' =
              events w @
              Native g [I32 0, Arr (replicate 256 0)] (gil_held w) (fst call) #
              (if enable_error_checking w = 0 then []
               else [Native glGetError [] (gil_held w) (fst (gl e glGetError [] (snd call)))])
          \<and> py_err w' = None"
proof -
  obtain r d1 where rd: "gl e g [I32 0, Arr (replicate 256 0)] (driver w) = (r, d1)"
    by (cases "gl e g [I32 0, Arr (replicate 256 0)] (driver w)")
  have "\<exists>msg. f = gen_common g msg"
    using assms(1) by (auto simp: Gen_common)
  then obtain msg where f: "f = gen_common g msg" ..
  have chk: "enable_error_checking w = 0 \<or> r_val (fst (gl e glGetError [] d1)) = GL_NO_ERROR"
    using assms(4) by (simp add: rd)
  have rd0: "gl e g [I32 (word_of_int 0), Arr (replicate 256 0)] (driver w) = (r, d1)"
    using rd by simp
  obtain w' where
    "gen_common g msg e (PyLong 0) w = (Some (PyTuple []), w')"
    "events w' = events w @ Native g [I32 0, Arr (replicate 256 0)] (gil_held w) r
              # (if enable_error_checking w = 0 then []
                 else [Native glGetError [] (gil_held w) (fst (gl e glGetError [] d1))])"
    "py_err w' = None"
    using gen_common_ok [OF _ _ assms(2) assms(3) rd0 chk refl, of msg] by auto
  then show ?thesis
    unfolding Let_def rd fst_conv snd_conv f
    by (intro exI [of _ w']) simp
qed

theorem batch_allocation_of_zero_witness:
  "\<exists>w'. GenVertexArrays sim_env (PyLong 0) (module_load sim0) = (Some (PyTuple []), w')
        \<and> events w' =
            [Native glGenVertexArrays [I32 0, Arr (replicate 256 0)] True reply0,
             Native glGetError [] True reply0]"
  using batch_allocation_of_zero
          [of GenVertexArrays glGenVertexArrays "module_load sim0" sim_env]
  by (simp add: module_load_def allocs_ok_def sim_env_def sim0_def sim_gl_def sim_gen_def GL_NO_ERROR_def reply0_def
        Let_def) blast

subsection \<open>The Error Translator\<close>

lemmas gl_error_codes =
  GL_NO_ERROR_def GL_INVALID_ENUM_def GL_INVALID_VALUE_def GL_INVALID_OPERATION_def
  GL_STACK_OVERFLOW_def GL_STACK_UNDERFLOW_def GL_OUT_OF_MEMORY_def
  GL_INVALID_FRAMEBUFFER_OPERATION_def

text \<open>
  C5, as the code has it. \<^verbatim>\<open>SET_GL_ERR\<close> queries the native error code once and maps it:
  no error sets no exception; invalid enum, invalid value, invalid operation and
  incomplete framebuffer set \<^verbatim>\<open>ValueError\<close>; out of memory sets \<^verbatim>\<open>MemoryError\<close>; stack
  underflow and overflow set \<^verbatim>\<open>OverflowError\<close>; every other code sets \<^verbatim>\<open>RuntimeError\<close>
  with one fixed description, which does not contain the code.
\<close>

theorem error_translator_categories:
  "let c = r_val (fst (gl e glGetError [] (driver w)));
       w' = SET_GL_ERR e w
   in events w' = events w @ [Native glGetError [] (gil_held w) (fst (gl e glGetError [] (driver w)))]
    \<and> (c = GL_NO_ERROR \<longrightarrow> py_err w' = py_err w)
    \<and> (c \<in> {GL_INVALID_ENUM, GL_INVALID_VALUE, GL_INVALID_OPERATION,
              GL_INVALID_FRAMEBUFFER_OPERATION} \<longrightarrow>
         (\<exists>msg. py_err w' = Some (ValueError, msg)))
    \<and> (c = GL_OUT_OF_MEMORY \<longrightarrow> (\<exists>msg. py_err w' = Some (MemoryError, msg)))
    \<and> (c \<in> {GL_STACK_UNDERFLOW, GL_STACK_OVERFLOW} \<longrightarrow>
         (\<exists>msg. py_err w' = Some (OverflowError, msg)))
    \<and> (c \<notin> {GL_NO_ERROR, GL_INVALID_ENUM, GL_INVALID_VALUE, GL_INVALID_OPERATION,
              GL_INVALID_FRAMEBUFFER_OPERATION, GL_OUT_OF_MEMORY, GL_STACK_UNDERFLOW,
              GL_STACK_OVERFLOW} \<longrightarrow>
         py_err w' = Some (RuntimeError, ''An unknown OpenGL error occurred.''))"
  by (simp add: SET_GL_ERR_def SET_GL_ERR_switch_def PyErr_SetString_def split_def Let_def
        native_fst native_events native_py_err gl_error_codes)

theorem error_translator_categories_witness:
  "py_err (SET_GL_ERR sim_env (sim_pending [GL_NO_ERROR])) = None
   \<and> (\<exists>msg. py_err (SET_GL_ERR sim_env (sim_pending [GL_INVALID_VALUE])) = Some (ValueError, msg))
   \<and> (\<exists>msg. py_err (SET_GL_ERR sim_env (sim_pending [GL_OUT_OF_MEMORY])) = Some (MemoryError, msg))
   \<and> (\<exists>msg. py_err (SET_GL_ERR sim_env (sim_pending [GL_STACK_OVERFLOW])) = Some (OverflowError, msg))
   \<and> py_err (SET_GL_ERR sim_env (sim_pending [0x0507])) =
       Some (RuntimeError, ''An unknown OpenGL error occurred.'')"
  using error_translator_categories [of sim_env "sim_pending [GL_NO_ERROR]"]
    error_translator_categories [of sim_env "sim_pending [GL_INVALID_VALUE]"]
    error_translator_categories [of sim_env "sim_pending [GL_OUT_OF_MEMORY]"]
    error_translator_categories [of sim_env "sim_pending [GL_STACK_OVERFLOW]"]
    error_translator_categories [of sim_env "sim_pending [0x0507]"]
  by (simp add: sim_pending_def module_load_def sim_env_def sim0_def sim_gl_def reply0_def
        gl_error_codes Let_def)

text \<open>
  C5 as stated fails in its last part: for the unknown codes \<open>0x0507\<close> and \<open>0x9999\<close> the
  description is the same text, with no digit in it, so it does not include the raw code.
\<close>

theorem unknown_error_description_counterexample:
  "py_err (SET_GL_ERR sim_env (sim_pending [0x0507])) =
     Some (RuntimeError, ''An unknown OpenGL error occurred.'')
   \<and> py_err (SET_GL_ERR sim_env (sim_pending [0x9999])) =
     Some (RuntimeError, ''An unknown OpenGL error occurred.'')
   \<and> set ''An unknown OpenGL error occurred.'' \<inter> set ''0123456789'' = {}"
  by (simp add: sim_pending_def module_load_def sim_env_def sim0_def sim_gl_def reply0_def
        SET_GL_ERR_def SET_GL_ERR_switch_def PyErr_SetString_def native_def gl_error_codes)

subsection \<open>Null pointers\<close>

lemma PyArg_ParseTuple_Some:
  "PyArg_ParseTuple args f w = (Some v, w1) \<Longrightarrow> w1 = w"
  by (auto simp: PyArg_ParseTuple_def split: if_splits sum.splits)

lemma PyLong_AsVoidPtr_frame:
  "events (snd (PyLong_AsVoidPtr v w)) = events w"
  "driver (snd (PyLong_AsVoidPtr v w)) = driver w"
  "gil_held (snd (PyLong_AsVoidPtr v w)) = gil_held w"
  "enable_error_checking (snd (PyLong_AsVoidPtr v w)) = enable_error_checking w"
  "live (snd (PyLong_AsVoidPtr v w)) = live w"
  "mem_plan (snd (PyLong_AsVoidPtr v w)) = mem_plan w"
  by (auto simp: PyLong_AsVoidPtr_def PyLong_AsLong_def PyLong_AsUnsignedLong_def
        PyErr_SetString_def Let_def split: option.splits)

lemmas parse_defs =
  PyArg_ParseTuple_def fmt_def fmt_end_def conv_I_def conv_i_def conv_k_def conv_f_def
  conv_O_PyLong_def conv_s_def conv_s_hash_def conv_p_def

text \<open>
  C4, as the code has it. In \<^verbatim>\<open>TexSubImage3D\<close>, \<^verbatim>\<open>GetTexImage\<close> and
  \<^verbatim>\<open>NamedBufferData\<close>, when the arguments parse and the pointer argument decodes to
  \<^verbatim>\<open>NULL\<close>, the function returns \<^verbatim>\<open>NULL\<close> with \<^verbatim>\<open>TypeError\<close> set and issues no native
  call (the trace and the driver state are unchanged), whatever the error-checking flag
  and the native error state are.
\<close>

theorem null_pointer_rejected:
  fixes e :: "'d env" and w :: "'d world"
  shows
   "(PyArg_ParseTuple args
       (fmt conv_i (fmt conv_i (fmt conv_i (fmt conv_i (fmt conv_i
       (fmt conv_I (fmt conv_I (fmt conv_I (fmt conv_i (fmt conv_i
       (fmt conv_O_PyLong fmt_end))))))))))) w
       = (Some (target, level, x, y, z, width, height, depth, fmt', type, pixels, ()), w)
     \<and> fst (PyLong_AsVoidPtr pixels w) = 0 \<longrightarrow>
       fst (TexSubImage3D e args w) = None
       \<and> py_err (snd (TexSubImage3D e args w)) = Some (TypeError, ''Not a valid data pointer'')
       \<and> events (snd (TexSubImage3D e args w)) = events w
       \<and> driver (snd (TexSubImage3D e args w)) = driver w)
  \<and> (PyArg_ParseTuple args'
       (fmt conv_i (fmt conv_i (fmt conv_i (fmt conv_i (fmt conv_O_PyLong fmt_end))))) w
       = (Some (target, level, fmt', type, pixels', ()), w)
     \<and> fst (PyLong_AsVoidPtr pixels' w) = 0 \<longrightarrow>
       fst (GetTexImage e args' w) = None
       \<and> py_err (snd (GetTexImage e args' w)) = Some (TypeError, ''Not a valid data pointer'')
       \<and> events (snd (GetTexImage e args' w)) = events w
       \<and> driver (snd (GetTexImage e args' w)) = driver w)
  \<and> (PyArg_ParseTuple args''
       (fmt conv_k (fmt conv_k (fmt conv_O_PyLong (fmt conv_i fmt_end)))) w
       = (Some (btarget, bsize, address, usage, ()), w)
     \<and> fst (PyLong_AsVoidPtr address w) = 0 \<longrightarrow>
       fst (NamedBufferData e args'' w) = None
       \<and> py_err (snd (NamedBufferData e args'' w)) = Some (TypeError, ''Not a valid data pointer'')
       \<and> events (snd (NamedBufferData e args'' w)) = events w
       \<and> driver (snd (NamedBufferData e args'' w)) = driver w)"
  by (simp add: TexSubImage3D_def GetTexImage_def NamedBufferData_def split_def Let_def
        PyErr_SetString_def PyLong_AsVoidPtr_frame)

theorem null_pointer_rejected_witness:
  "fst (NamedBufferData sim_env [PyLong 1, PyLong 16, PyLong 0, PyLong 0x88E4]
          (sim_pending [GL_INVALID_VALUE])) = None
   \<and> py_err (snd (NamedBufferData sim_env [PyLong 1, PyLong 16, PyLong 0, PyLong 0x88E4]
          (sim_pending [GL_INVALID_VALUE]))) = Some (TypeError, ''Not a valid data pointer'')
   \<and> events (snd (NamedBufferData sim_env [PyLong 1, PyLong 16, PyLong 0, PyLong 0x88E4]
          (sim_pending [GL_INVALID_VALUE]))) = []
   \<and> fst (GetTexImage sim_env [PyLong 0x8C1A, PyLong 0, PyLong 0x1908, PyLong 0x1401, PyLong (2 ^ 64)]
          ((module_load sim0)\<lparr>enable_error_checking := 0\<rparr>)) = None
   \<and> events (snd (GetTexImage sim_env
          [PyLong 0x8C1A, PyLong 0, PyLong 0x1908, PyLong 0x1401, PyLong (2 ^ 64)]
          ((module_load sim0)\<lparr>enable_error_checking := 0\<rparr>))) = []"
  using null_pointer_rejected
     [where e = sim_env and w = "sim_pending [GL_INVALID_VALUE]"
        and args'' = "[PyLong 1, PyLong 16, PyLong 0, PyLong 0x88E4]"
        and btarget = 1 and bsize = 16 and address = "PyLong 0" and usage = "0x88E4"]
    null_pointer_rejected
     [where e = sim_env and w = "(module_load sim0)\<lparr>enable_error_checking := 0\<rparr>"
        and args' = "[PyLong 0x8C1A, PyLong 0, PyLong 0x1908, PyLong 0x1401, PyLong (2 ^ 64)]"
        and target = "0x8C1A" and level = 0 and fmt' = "0x1908" and type = "0x1401"
        and pixels' = "PyLong (2 ^ 64)"]
  by (simp add: parse_defs sim_pending_def module_load_def PyLong_AsVoidPtr_def
        PyLong_AsUnsignedLong_def PyErr_SetString_def PyErr_Occurred_def)

text \<open>
  C4 as stated fails for \<^verbatim>\<open>VertexAttribPointer\<close>, whose pointer argument is an offset
  into the bound buffer: the offset 0 decodes to the null pointer and is passed on to the
  native call, which succeeds.
\<close>

theorem null_pointer_forwarded_counterexample:
  "fst (VertexAttribPointer sim_env
          [PyLong 0, PyLong 3, PyLong 0x1406, PyBool False, PyLong 0, PyLong 0]
          (module_load sim0)) = Some PyNone
   \<and> events (snd (VertexAttribPointer sim_env
          [PyLong 0, PyLong 3, PyLong 0x1406, PyBool False, PyLong 0, PyLong 0]
          (module_load sim0))) =
       [Native glVertexAttribPointer [I32 0, I32 3, I32 0x1406, I32 0, I32 0, Ptr 0] True reply0,
        Native glGetError [] True reply0]"
  by (simp add: VertexAttribPointer_def parse_defs module_load_def PyLong_AsVoidPtr_def
        PyLong_AsUnsignedLong_def PyErr_SetString_def PyErr_Occurred_def native_def
        CHECK_ERROR_def SET_GL_ERR_def SET_GL_ERR_switch_def GL_NO_ERROR_def Py_RETURN_NONE_def
        sim_env_def sim0_def sim_gl_def reply0_def)

subsection \<open>Log retrieval\<close>

lemma InfoLog_common:
  "GetProgramInfoLog = info_log_common glGetProgramiv glGetProgramInfoLog"
  "GetShaderInfoLog = info_log_common glGetShaderiv glGetShaderInfoLog"
  by (simp_all add: fun_eq_iff GetProgramInfoLog_def GetShaderInfoLog_def info_log_common_def)

lemma PyLong_AsUnsignedLong_frame:
  "events (snd (PyLong_AsUnsignedLong v w)) = events w"
  "driver (snd (PyLong_AsUnsignedLong v w)) = driver w"
  "gil_held (snd (PyLong_AsUnsignedLong v w)) = gil_held w"
  "enable_error_checking (snd (PyLong_AsUnsignedLong v w)) = enable_error_checking w"
  "live (snd (PyLong_AsUnsignedLong v w)) = live w"
  "mem_plan (snd (PyLong_AsUnsignedLong v w)) = mem_plan w"
  by (auto simp: PyLong_AsUnsignedLong_def PyErr_SetString_def split: option.splits)


lemma PyBytes_FromStringAndSize_live:
  "live (snd (PyBytes_FromStringAndSize buf n w)) = live w"
  by (cases "py_alloc w")
     (auto simp: PyBytes_FromStringAndSize_def PyErr_SetString_def PyErr_NoMemory_def
        py_alloc_def split: list.splits bool.splits)

lemma PyMem_Calloc_live:
  "live (snd (PyMem_Calloc n w)) = (if fst (PyMem_Calloc n w) = None then live w else Suc (live w))"
  by (cases "py_alloc w")
     (auto simp: PyMem_Calloc_def py_alloc_def split: list.splits bool.splits)

lemma info_log_common_live:
  "live (snd (info_log_common q g e val w)) = live w"
proof -
  obtain h w1 where 1: "PyLong_AsUnsignedLong val w = (h, w1)"
    by (cases "PyLong_AsUnsignedLong val w")
  then have l1: "live w1 = live w"
    using PyLong_AsUnsignedLong_frame(5) [of val w] by simp
  obtain r w2 where 2: "native e q [I32 (ucast h), I32 GL_INFO_LOG_LENGTH, Cell 0] w1 = (r, w2)"
    by (cases "native e q [I32 (ucast h), I32 GL_INFO_LOG_LENGTH, Cell 0] w1")
  then have l2: "live w2 = live w"
    using native_live [of e q "[I32 (ucast h), I32 GL_INFO_LOG_LENGTH, Cell 0]" w1] l1 by simp
  obtain b w3 where 3: "PyMem_Calloc (scast (r_cell r + 10)) w2 = (b, w3)"
    by (cases "PyMem_Calloc (scast (r_cell r + 10)) w2")
  then have l3: "live w3 = (if b = None then live w else Suc (live w))"
    using PyMem_Calloc_live [of "scast (r_cell r + 10)" w2] l2 by simp
  show ?thesis
  proof (cases b)
    case None
    then show ?thesis
      using 1 2 3 l3 by (simp add: info_log_common_def PyErr_NoMemory_def)
  next
    case (Some buf)
    obtain r' w4 where 4: "native e g [I32 (ucast h), I32 (r_cell r), Cell (r_cell r), Buf buf] w3 = (r', w4)"
      by (cases "native e g [I32 (ucast h), I32 (r_cell r), Cell (r_cell r), Buf buf] w3")
    then have l4: "live w4 = Suc (live w)"
      using native_live [of e g "[I32 (ucast h), I32 (r_cell r), Cell (r_cell r), Buf buf]" w3] l3 Some
      by simp
    show ?thesis
      using 1 2 3 4 l4 Some
        PyBytes_FromStringAndSize_live [of "store buf (r_bytes r')" "scast (r_cell r')" w4]
      by (simp add: info_log_common_def PyMem_Free_def split_def Let_def)
  qed
qed

lemma store_length: "length (store buf written) = length buf"
  by (simp add: store_def)

lemma store_take:
  "n \<le> length written \<Longrightarrow> n \<le> length buf \<Longrightarrow> take n (store buf written) = take n written"
  by (simp add: store_def)

lemma PyLong_AsUnsignedLong_handle:
  "0 \<le> H \<Longrightarrow> H < 2 ^ 64 \<Longrightarrow> PyLong_AsUnsignedLong (PyLong H) w = (word_of_int H, w)"
  by (simp add: PyLong_AsUnsignedLong_def)

lemma scast_small:
  fixes L :: "32 word"
  assumes "0 \<le> sint L"
  shows "unat (scast L :: 64 word) = nat (sint L)" and "sint (scast L :: 64 word) = sint L"
proof -
  have b: "sint L < 2 ^ 31"
    using sint_lt [of L] by simp
  show s: "sint (scast L :: 64 word) = sint L"
    by (simp add: sint_up_scast is_up)
  have "uint (scast L :: 64 word) = take_bit 64 (sint L)"
    using uint_sint [of "scast L :: 64 word"] s by simp
  also have "\<dots> = sint L"
    using assms b by (intro take_bit_int_eq_self) simp_all
  finally have "uint (scast L :: 64 word) = sint L" .
  then show "unat (scast L :: 64 word) = nat (sint L)"
    by (simp add: unat_eq_nat_uint)
qed

lemma sint_plus_10:
  fixes L :: "32 word"
  assumes "0 \<le> sint L" "sint L < 2 ^ 31 - 10"
  shows "sint (L + 10) = sint L + 10"
proof -
  have b: "sint L < 2147483638" using assms by simp
  have "sint (L + 10) = signed_take_bit 31 (sint L + sint (10 :: 32 word))"
    by (simp only: sint_word_ariths) simp
  also have "sint (10 :: 32 word) = 10" by simp
  also have "signed_take_bit 31 (sint L + 10) = sint L + 10"
  proof (rule signed_take_bit_int_eq_self)
    show "- (2 ^ 31) \<le> sint L + 10" using assms(1) by simp
    have "sint L + 10 < 2147483648" using b by linarith
    then show "sint L + 10 < 2 ^ 31" by simp
  qed
  finally show ?thesis .
qed

lemma PyMem_Calloc_ok:
  assumes "allocs_ok w" "\<not> 2 ^ 63 \<le> unat n"
  shows "PyMem_Calloc n w =
     (Some (replicate (unat n) (CHR 0x00)),
      w\<lparr>mem_plan := tl (mem_plan w), live := Suc (live w),
        events := events w @ [MemAlloc (unat n)]\<rparr>)"
  unfolding PyMem_Calloc_def using assms(2) by (simp only: if_False py_alloc_ok [OF assms(1)]) simp

lemma PyBytes_FromStringAndSize_ok:
  assumes "allocs_ok w" "0 \<le> sint n"
  shows "PyBytes_FromStringAndSize buf n w =
     (Some (PyBytes (take (nat (sint n)) buf)), w\<lparr>mem_plan := tl (mem_plan w)\<rparr>)"
  using assms by (simp add: PyBytes_FromStringAndSize_def py_alloc_ok)

lemma info_log_common_ok:
  fixes e :: "'d env" and w :: "'d world"
  assumes H: "0 \<le> H" "H < 2 ^ 64"
    and mem: "allocs_ok w"
    and rd: "gl e q [I32 (ucast (word_of_int H :: 64 word)), I32 GL_INFO_LOG_LENGTH, Cell 0] (driver w)
               = (r, d1)"
    and L: "0 \<le> sint (r_cell r)" "sint (r_cell r) < 2 ^ 31 - 10"
    and buf: "buf = replicate (nat (sint (r_cell r)) + 10) (CHR 0x00)"
    and rd': "gl e g [I32 (ucast (word_of_int H :: 64 word)), I32 (r_cell r), Cell (r_cell r), Buf buf] d1
               = (r', d2)"
    and L': "0 \<le> sint (r_cell r')"
  shows "\<exists>w'. info_log_common q g e (PyLong H) w =
            (Some (PyBytes (take (nat (sint (r_cell r'))) (store buf (r_bytes r')))), w')
          \<and> events w' = events w @
              [Native q [I32 (ucast (word_of_int H :: 64 word)), I32 GL_INFO_LOG_LENGTH, Cell 0]
                 (gil_held w) r,
               MemAlloc (nat (sint (r_cell r)) + 10),
               Native g [I32 (ucast (word_of_int H :: 64 word)), I32 (r_cell r), Cell (r_cell r),
                         Buf buf] (gil_held w) r',
               MemFree]
          \<and> py_err w' = py_err w"
proof -
  let ?h = "ucast (word_of_int H :: 64 word) :: 32 word"
  let ?as = "[I32 ?h, I32 GL_INFO_LOG_LENGTH, Cell 0]"
  let ?as' = "[I32 ?h, I32 (r_cell r), Cell (r_cell r), Buf buf]"
  let ?n = "nat (sint (r_cell r)) + 10"
  define w2 where "w2 = snd (native e q ?as w)"
  define w3 where "w3 = w2\<lparr>mem_plan := tl (mem_plan w2), live := Suc (live w2),
                           events := events w2 @ [MemAlloc ?n]\<rparr>"
  define w4 where "w4 = snd (native e g ?as' w3)"
  define w5 where "w5 = w4\<lparr>mem_plan := tl (mem_plan w4)\<rparr>"
  have s1: "PyLong_AsUnsignedLong (PyLong H) w = (word_of_int H, w)"
    using H by (rule PyLong_AsUnsignedLong_handle)
  have s2: "native e q ?as w = (r, w2)"
    using native_fst [of e q ?as w] by (simp add: rd prod_eq_iff w2_def)
  have p2: "events w2 = events w @ [Native q ?as (gil_held w) r]" "driver w2 = d1"
    "allocs_ok w2" "py_err w2 = py_err w" "gil_held w2 = gil_held w"
    using mem
    by (simp_all add: w2_def native_events native_driver allocs_ok_native native_py_err
          native_gil rd)
  have n: "unat (scast (r_cell r + 10) :: 64 word) = ?n"
    using L sint_plus_10 [of "r_cell r"] scast_small(1) [of "r_cell r + 10"]
    by (simp add: nat_add_distrib)
  have s3: "PyMem_Calloc (scast (r_cell r + 10)) w2 = (Some buf, w3)"
  proof -
    have "sint (r_cell r) < 2147483638" using L by simp
    then have "?n < 2147483648" using L(1) by linarith
    also have "\<dots> < (2::nat) ^ 63" by simp
    finally have big: "\<not> 2 ^ 63 \<le> unat (scast (r_cell r + 10) :: 64 word)"
      unfolding n by simp
    show ?thesis
      using PyMem_Calloc_ok [OF p2(3) big] by (simp only: n w3_def buf)
  qed
  have p3: "events w3 = events w @ [Native q ?as (gil_held w) r, MemAlloc ?n]" "driver w3 = d1"
    "allocs_ok w3" "py_err w3 = py_err w" "gil_held w3 = gil_held w"
    using p2 allocs_ok_tl1 [OF p2(3)] by (simp_all add: w3_def allocs_ok_def)
  have s4: "native e g ?as' w3 = (r', w4)"
    using native_fst [of e g ?as' w3] by (simp add: rd' p3(2) prod_eq_iff w4_def)
  have p4: "events w4 = events w @ [Native q ?as (gil_held w) r, MemAlloc ?n,
                                    Native g ?as' (gil_held w) r']"
    "allocs_ok w4" "py_err w4 = py_err w"
    using p3
    by (simp_all add: w4_def native_events allocs_ok_native native_py_err rd')
  have s5: "PyBytes_FromStringAndSize (store buf (r_bytes r')) (scast (r_cell r')) w4 =
      (Some (PyBytes (take (nat (sint (r_cell r'))) (store buf (r_bytes r')))), w5)"
    using PyBytes_FromStringAndSize_ok [OF p4(2), of "scast (r_cell r')"] L'
    by (simp add: scast_small(2) w5_def)
  have run: "info_log_common q g e (PyLong H) w =
      (Some (PyBytes (take (nat (sint (r_cell r'))) (store buf (r_bytes r')))), PyMem_Free w5)"
    unfolding info_log_common_def by (simp add: s1 s2 s3 s4 s5)
  show ?thesis
  proof (intro exI conjI)
    show "info_log_common q g e (PyLong H) w =
      (Some (PyBytes (take (nat (sint (r_cell r'))) (store buf (r_bytes r')))), PyMem_Free w5)"
      by (rule run)
    show "events (PyMem_Free w5) = events w @
              [Native q ?as (gil_held w) r, MemAlloc ?n, Native g ?as' (gil_held w) r', MemFree]"
      using p4(1) by (simp add: PyMem_Free_def w5_def)
    show "py_err (PyMem_Free w5) = py_err w"
      using p4(3) by (simp add: PyMem_Free_def w5_def)
  qed
qed

text \<open>
  C6. \<^verbatim>\<open>GetProgramInfoLog\<close> and \<^verbatim>\<open>GetShaderInfoLog\<close> never leave a scratch buffer
  behind, whatever the argument and the state are. For a handle in the range of
  \<^verbatim>\<open>unsigned long\<close>, a Python heap that allocates, a reported length \<open>L\<close> with
  \<open>0 \<le> L < 2^31 - 10\<close> and a fetch that reports a length \<open>L' \<ge> 0\<close>, they query the
  length, allocate a zeroed buffer of \<open>L + 10\<close> bytes, fetch with the limit \<open>L\<close>, free
  the buffer, in this order, and return the first \<open>L'\<close> bytes of the buffer: the empty
  byte string when \<open>L' = 0\<close>, and exactly the first \<open>L'\<close> bytes that the driver wrote
  when it wrote that many inside the buffer.
\<close>

theorem info_log_retrieval:
  fixes e :: "'d env" and w :: "'d world"
  assumes "(f, q, g) \<in> {(GetProgramInfoLog, glGetProgramiv, glGetProgramInfoLog),
                         (GetShaderInfoLog, glGetShaderiv, glGetShaderInfoLog)}"
  shows
    "live (snd (f e val w)) = live w \<and>
     (let h = (ucast (word_of_int H :: 64 word) :: 32 word);
          query = gl e q [I32 h, I32 GL_INFO_LOG_LENGTH, Cell 0] (driver w);
          L = r_cell (fst query);
          buf = replicate (nat (sint L) + 10) (CHR 0x00);
          fetch = gl e g [I32 h, I32 L, Cell L, Buf buf] (snd query);
          L' = r_cell (fst fetch);
          written = r_bytes (fst fetch)
      in 0 \<le> H \<and> H < 2 ^ 64 \<and> allocs_ok w \<and> 0 \<le> sint L \<and> sint L < 2 ^ 31 - 10 \<and> 0 \<le> sint L' \<longrightarrow>
         (\<exists>w'. f e (PyLong H) w = (Some (PyBytes (take (nat (sint L')) (store buf written))), w')
             \<and> events w' = events w @
                  [Native q [I32 h, I32 GL_INFO_LOG_LENGTH, Cell 0] (gil_held w) (fst query),
                   MemAlloc (nat (sint L) + 10),
                   Native g [I32 h, I32 L, Cell L, Buf buf] (gil_held w) (fst fetch),
                   MemFree]
             \<and> py_err w' = py_err w)
         \<and> (L' = 0 \<longrightarrow> fst (f e (PyLong H) w) = Some (PyBytes []))
         \<and> (nat (sint L') \<le> length written \<and> sint L' \<le> sint L + 10 \<longrightarrow>
              fst (f e (PyLong H) w) = Some (PyBytes (take (nat (sint L')) written))))"
proof -
  have f: "f = info_log_common q g"
    using assms by (auto simp: InfoLog_common)
  have leak: "live (snd (f e val w)) = live w"
    unfolding f by (rule info_log_common_live)
  define h where "h = (ucast (word_of_int H :: 64 word) :: 32 word)"
  obtain r d1 where rd: "gl e q [I32 h, I32 GL_INFO_LOG_LENGTH, Cell 0] (driver w) = (r, d1)"
    by (cases "gl e q [I32 h, I32 GL_INFO_LOG_LENGTH, Cell 0] (driver w)")
  define buf where "buf = replicate (nat (sint (r_cell r)) + 10) (CHR 0x00)"
  obtain r' d2 where rd': "gl e g [I32 h, I32 (r_cell r), Cell (r_cell r), Buf buf] d1 = (r', d2)"
    by (cases "gl e g [I32 h, I32 (r_cell r), Cell (r_cell r), Buf buf] d1")
  have main: "(\<exists>w'. f e (PyLong H) w =
                 (Some (PyBytes (take (nat (sint (r_cell r'))) (store buf (r_bytes r')))), w')
             \<and> events w' = events w @
                  [Native q [I32 h, I32 GL_INFO_LOG_LENGTH, Cell 0] (gil_held w) r,
                   MemAlloc (nat (sint (r_cell r)) + 10),
                   Native g [I32 h, I32 (r_cell r), Cell (r_cell r), Buf buf] (gil_held w) r',
                   MemFree]
             \<and> py_err w' = py_err w)
         \<and> (r_cell r' = 0 \<longrightarrow> fst (f e (PyLong H) w) = Some (PyBytes []))
         \<and> (nat (sint (r_cell r')) \<le> length (r_bytes r') \<and> sint (r_cell r') \<le> sint (r_cell r) + 10 \<longrightarrow>
              fst (f e (PyLong H) w) = Some (PyBytes (take (nat (sint (r_cell r'))) (r_bytes r'))))"
    if hyp: "0 \<le> H" "H < 2 ^ 64" "allocs_ok w" "0 \<le> sint (r_cell r)"
      "sint (r_cell r) < 2 ^ 31 - 10" "0 \<le> sint (r_cell r')"
  proof -
    obtain w' where run: "f e (PyLong H) w =
                 (Some (PyBytes (take (nat (sint (r_cell r'))) (store buf (r_bytes r')))), w')"
      and ev: "events w' = events w @
                  [Native q [I32 h, I32 GL_INFO_LOG_LENGTH, Cell 0] (gil_held w) r,
                   MemAlloc (nat (sint (r_cell r)) + 10),
                   Native g [I32 h, I32 (r_cell r), Cell (r_cell r), Buf buf] (gil_held w) r',
                   MemFree]"
      and err: "py_err w' = py_err w"
      using info_log_common_ok [OF hyp(1,2,3) rd [unfolded h_def] hyp(4,5) buf_def
          rd' [unfolded h_def] hyp(6)]
      unfolding f h_def by blast
    have zero: "fst (f e (PyLong H) w) = Some (PyBytes [])" if "r_cell r' = 0"
      using run that by simp
    have exact: "fst (f e (PyLong H) w) = Some (PyBytes (take (nat (sint (r_cell r'))) (r_bytes r')))"
      if "nat (sint (r_cell r')) \<le> length (r_bytes r')" "sint (r_cell r') \<le> sint (r_cell r) + 10"
    proof -
      have "nat (sint (r_cell r')) \<le> length buf"
        using that(2) hyp(4) by (simp add: buf_def)
      then show ?thesis
        using run that(1) by (simp add: store_take)
    qed
    show ?thesis
      using run ev err zero exact by blast
  qed
  show ?thesis
    using leak main
    unfolding Let_def h_def [symmetric] rd fst_conv snd_conv buf_def [symmetric] rd'
    by blast
qed

theorem info_log_retrieval_witness:
  "(\<exists>w'. GetProgramInfoLog sim_env (PyLong 5) (module_load sim0) = (Some (PyBytes ''ok''), w')
      \<and> live w' = 0)
   \<and> (\<exists>w'. GetShaderInfoLog sim_env (PyLong 5) (module_load (sim0\<lparr>info_log := []\<rparr>)) =
             (Some (PyBytes []), w')
      \<and> events w' =
          [Native glGetShaderiv [I32 5, I32 GL_INFO_LOG_LENGTH, Cell 0] True reply0,
           MemAlloc 10,
           Native glGetShaderInfoLog [I32 5, I32 0, Cell 0, Buf (replicate 10 (CHR 0x00))] True reply0,
           MemFree])"
proof -
  have a: "\<exists>w'. GetProgramInfoLog sim_env (PyLong 5) (module_load sim0) = (Some (PyBytes ''ok''), w')
      \<and> live w' = 0"
    using info_log_retrieval
            [of GetProgramInfoLog glGetProgramiv glGetProgramInfoLog sim_env "PyLong 5"
                "module_load sim0" 5]
    by (simp add: module_load_def allocs_ok_def sim_env_def sim0_def sim_gl_def sim_get_iv_def
          sim_get_info_log_def reply0_def Let_def store_def) force
  have b: "\<exists>w'. GetShaderInfoLog sim_env (PyLong 5) (module_load (sim0\<lparr>info_log := []\<rparr>)) =
             (Some (PyBytes []), w')
      \<and> events w' =
          [Native glGetShaderiv [I32 5, I32 GL_INFO_LOG_LENGTH, Cell 0] True reply0,
           MemAlloc 10,
           Native glGetShaderInfoLog [I32 5, I32 0, Cell 0, Buf (replicate 10 (CHR 0x00))] True reply0,
           MemFree]"
    using info_log_retrieval
            [of GetShaderInfoLog glGetShaderiv glGetShaderInfoLog sim_env "PyLong 5"
                "module_load (sim0\<lparr>info_log := []\<rparr>)" 5]
    by (simp add: module_load_def allocs_ok_def sim_env_def sim0_def sim_gl_def sim_get_iv_def
          sim_get_info_log_def reply0_def Let_def store_def) blast
  show ?thesis using a b by blast
qed

subsection \<open>Capability bootstrap\<close>

text \<open>
  C8, as the code has it. On Apple \<^verbatim>\<open>_glewInit\<close> returns \<^verbatim>\<open>None\<close> and does nothing.
  Elsewhere it calls \<^verbatim>\<open>glewInit\<close> once and fails with a \<^verbatim>\<open>RuntimeError\<close> that names the
  cause: the loader's own error string, or the missing extension
  \<^verbatim>\<open>ARB_texture_storage\<close> or \<^verbatim>\<open>ARB_texture_buffer_object_rgb32\<close>; otherwise it
  returns \<^verbatim>\<open>None\<close>. The file keeps no record of the outcome.
\<close>

theorem bootstrap_outcomes:
  "let init = gl e glewInit [] (driver w);
       err = r_val (fst init);
       res = glewInit_meth e w
   in (apple e \<longrightarrow> res = (Some PyNone, w))
    \<and> (\<not> apple e \<longrightarrow>
         events (snd res) = events w @ [Native glewInit [] (gil_held w) (fst init)])
    \<and> (\<not> apple e \<and> err \<noteq> GLEW_OK \<longrightarrow>
         fst res = None \<and>
         py_err (snd res) =
           Some (RuntimeError, ''GLEW init failed: '' @ glewGetErrorString e err))
    \<and> (\<not> apple e \<and> err = GLEW_OK \<and> \<not> GLEW_ARB_texture_storage e (snd init) \<longrightarrow>
         fst res = None \<and>
         py_err (snd res) =
           Some (RuntimeError,
             ''The OpenGL driver on this system is missing the required extension: ARB_texture_storage''))
    \<and> (\<not> apple e \<and> err = GLEW_OK \<and> GLEW_ARB_texture_storage e (snd init) \<and>
        \<not> GLEW_ARB_texture_buffer_object_rgb32 e (snd init) \<longrightarrow>
         fst res = None \<and>
         py_err (snd res) =
           Some (RuntimeError,
             ''The OpenGL driver on this system is missing the required extension: ARB_texture_buffer_object_rgb32''))
    \<and> (\<not> apple e \<and> err = GLEW_OK \<and> GLEW_ARB_texture_storage e (snd init) \<and>
        GLEW_ARB_texture_buffer_object_rgb32 e (snd init) \<longrightarrow>
         fst res = Some PyNone \<and> py_err (snd res) = py_err w)"
  by (simp add: glewInit_meth_def native_def split_def Let_def PyErr_SetString_def
        Py_RETURN_NONE_def)

theorem bootstrap_outcomes_witness:
  "glewInit_meth (sim_env\<lparr>apple := True\<rparr>) (module_load sim0) = (Some PyNone, module_load sim0)
   \<and> fst (glewInit_meth sim_env (module_load (sim0\<lparr>glew_status := 1\<rparr>))) = None
   \<and> py_err (snd (glewInit_meth sim_env (module_load (sim0\<lparr>glew_status := 1\<rparr>)))) =
        Some (RuntimeError, ''GLEW init failed: Missing GL version'')
   \<and> py_err (snd (glewInit_meth sim_env (module_load (sim0\<lparr>has_texture_storage := False\<rparr>)))) =
        Some (RuntimeError,
          ''The OpenGL driver on this system is missing the required extension: ARB_texture_storage'')
   \<and> py_err (snd (glewInit_meth sim_env (module_load (sim0\<lparr>has_rgb32 := False\<rparr>)))) =
        Some (RuntimeError,
          ''The OpenGL driver on this system is missing the required extension: ARB_texture_buffer_object_rgb32'')
   \<and> fst (glewInit_meth sim_env (module_load sim0)) = Some PyNone"
  using bootstrap_outcomes [of "sim_env\<lparr>apple := True\<rparr>" "module_load sim0"]
    bootstrap_outcomes [of sim_env "module_load (sim0\<lparr>glew_status := 1\<rparr>)"]
    bootstrap_outcomes [of sim_env "module_load (sim0\<lparr>has_texture_storage := False\<rparr>)"]
    bootstrap_outcomes [of sim_env "module_load (sim0\<lparr>has_rgb32 := False\<rparr>)"]
    bootstrap_outcomes [of sim_env "module_load sim0"]
  by (simp add: Let_def sim_env_def sim0_def sim_gl_def module_load_def reply0_def GLEW_OK_def)

text \<open>
  C8 as stated fails in its second part: after a bootstrap that failed for a missing
  extension, \<^verbatim>\<open>glViewport\<close> called through the method table runs its native call and
  returns \<^verbatim>\<open>None\<close>.
\<close>

theorem operation_after_failed_bootstrap_counterexample:
  "fst (glewInit_meth sim_env (module_load (sim0\<lparr>has_texture_storage := False\<rparr>))) = None
   \<and> map_option fst (call_method sim_env ''glViewport''
         [PyLong 0, PyLong 0, PyLong 800, PyLong 600] after_failed_bootstrap) = Some (Some PyNone)
   \<and> map_option (events \<circ> snd) (call_method sim_env ''glViewport''
         [PyLong 0, PyLong 0, PyLong 800, PyLong 600] after_failed_bootstrap) =
       Some [Native glewInit [] True reply0,
             Native glViewport [I32 0, I32 0, I32 800, I32 600] True reply0,
             Native glGetError [] True reply0]"
  by (simp add: call_method_def GL_METHODS_def call_meth_def after_failed_bootstrap_def
        glewInit_meth_def Viewport_def parse_defs native_def split_def Let_def
        PyErr_SetString_def PyErr_Occurred_def Py_RETURN_NONE_def CHECK_ERROR_def SET_GL_ERR_def
        SET_GL_ERR_switch_def GL_NO_ERROR_def GLEW_OK_def
        sim_env_def sim0_def sim_gl_def module_load_def reply0_def)

subsection \<open>Constant registry\<close>

lemma published_simps:
  "published [] dict = dict"
  "published ((name, v) # tab) dict = published tab (dict(name \<mapsto> v))"
  "published_events [] = []"
  "published_events ((name, v) # tab) = AddIntConstant name v True # published_events tab"
  by (simp_all add: published_def published_events_def)

lemma GLC_lines_ok:
  "allocs_ok w \<Longrightarrow>
   GLC_lines tab dict w =
     (1, published tab dict,
      w\<lparr>mem_plan := drop (length tab) (mem_plan w),
        events := events w @ published_events tab\<rparr>)"
proof (induction tab arbitrary: dict w)
  case Nil
  then show ?case by (simp add: published_simps)
next
  case (Cons c tab)
  obtain name v where c: "c = (name, v)" by (cases c)
  let ?w1 = "w\<lparr>mem_plan := tl (mem_plan w), events := events w @ [AddIntConstant name v True]\<rparr>"
  have ok1: "allocs_ok ?w1"
    using allocs_ok_tl1 [OF Cons.prems] by (simp add: allocs_ok_def)
  have step: "PyModule_AddIntConstant dict name v w = (True, dict(name \<mapsto> v), ?w1)"
    using Cons.prems by (simp add: PyModule_AddIntConstant_def py_alloc_ok)
  show ?case
    using Cons.IH [OF ok1, of "dict(name \<mapsto> v)"]
    by (simp add: c step published_simps drop_Suc tl_drop del: fun_upd_apply)
qed

lemma GLC_lines_fail:
  "mem_plan w = replicate k True @ False # rest \<Longrightarrow> k < length tab \<Longrightarrow>
   GLC_lines tab dict w =
     (0, published (take k tab) dict,
      w\<lparr>mem_plan := rest, py_err := Some (MemoryError, []),
        events := events w @ published_events (take k tab) @
                  [AddIntConstant (fst (tab ! k)) (snd (tab ! k)) False]\<rparr>)"
proof (induction tab arbitrary: dict w k)
  case Nil
  then show ?case by simp
next
  case (Cons c tab)
  obtain name v where c: "c = (name, v)" by (cases c)
  show ?case
  proof (cases k)
    case 0
    then have "py_alloc w = (False, w\<lparr>mem_plan := rest\<rparr>)"
      using Cons.prems(1) by (simp add: py_alloc_def)
    then show ?thesis
      using 0 by (simp add: c PyModule_AddIntConstant_def PyErr_NoMemory_def published_simps)
  next
    case (Suc j)
    let ?w1 = "w\<lparr>mem_plan := replicate j True @ False # rest,
                   events := events w @ [AddIntConstant name v True]\<rparr>"
    have "py_alloc w = (True, w\<lparr>mem_plan := replicate j True @ False # rest\<rparr>)"
      using Cons.prems(1) Suc by (simp add: py_alloc_def)
    then have step: "PyModule_AddIntConstant dict name v w = (True, dict(name \<mapsto> v), ?w1)"
      by (simp add: PyModule_AddIntConstant_def)
    have j: "j < length tab" using Cons.prems(2) Suc by simp
    show ?thesis
      using Cons.IH [of ?w1 j, OF _ j, of "dict(name \<mapsto> v)"] Suc
      by (simp add: c step published_simps del: fun_upd_apply)
  qed
qed

lemma published_other: "name \<notin> fst ` set tab \<Longrightarrow> published tab dict name = dict name"
proof (induction tab arbitrary: dict)
  case Nil
  then show ?case by (simp add: published_simps)
next
  case (Cons c tab)
  obtain n' v' where c: "c = (n', v')" by (cases c)
  show ?case
    using Cons.IH [of "dict(n' \<mapsto> v')"] Cons.prems by (simp add: c published_simps del: fun_upd_apply) simp
qed

lemma published_lookup:
  "distinct (map fst tab) \<Longrightarrow> (name, v) \<in> set tab \<Longrightarrow> published tab dict name = Some v"
proof (induction tab arbitrary: dict)
  case Nil
  then show ?case by simp
next
  case (Cons c tab)
  obtain n' v' where c: "c = (n', v')" by (cases c)
  show ?case
  proof (cases "(name, v) \<in> set tab")
    case True
    then show ?thesis
      using Cons.IH [of "dict(n' \<mapsto> v')"] Cons.prems(1) by (simp add: c published_simps del: fun_upd_apply)
  next
    case False
    then have "name = n'" "v = v'" using Cons.prems(2) c by auto
    moreover have "n' \<notin> fst ` set tab" using Cons.prems(1) c by simp
    ultimately show ?thesis
      using published_other [of n' tab "dict(n' \<mapsto> v')"] by (simp add: c published_simps del: fun_upd_apply) simp
  qed
qed

lemma gl_constants_distinct: "distinct (map fst gl_constants)"
  by (simp add: gl_constants_def)

text \<open>
  C9. One run of \<^verbatim>\<open>add_module_gl_constants\<close> publishes the 48 constants of its table,
  whose names are all different, each once and in order, and returns 1, when every
  publication succeeds. When the publication of the constant at position \<open>k\<close> is the
  first to fail, the run stops there: it returns 0 with \<^verbatim>\<open>MemoryError\<close> set, the
  constants before \<open>k\<close> are in the module, and nothing is attempted after \<open>k\<close> (the
  trace ends with the failed publication and the plan of allocations is consumed up to it).
\<close>

theorem constant_registry_population:
  fixes w :: "'d world"
  shows
  "distinct (map fst gl_constants) \<and> length gl_constants = 48
   \<and> (allocs_ok w \<longrightarrow>
        (\<exists>dict' w'. add_module_gl_constants dict w = (1, dict', w')
           \<and> events w' =
               events w @ map (\<lambda>(name, v). AddIntConstant name v True) gl_constants
           \<and> py_err w' = py_err w
           \<and> (\<forall>(name, v) \<in> set gl_constants. dict' name = Some v)
           \<and> (\<forall>name. name \<notin> fst ` set gl_constants \<longrightarrow> dict' name = dict name)))
   \<and> (k < length gl_constants \<and> mem_plan w = replicate k True @ False # rest \<longrightarrow>
        (\<exists>dict' w'. add_module_gl_constants dict w = (0, dict', w')
           \<and> py_err w' = Some (MemoryError, [])
           \<and> events w' =
               events w @
               map (\<lambda>(name, v). AddIntConstant name v True) (take k gl_constants) @
               [AddIntConstant (fst (gl_constants ! k)) (snd (gl_constants ! k)) False]
           \<and> mem_plan w' = rest
           \<and> (\<forall>(name, v) \<in> set (take k gl_constants). dict' name = Some v)
           \<and> (\<forall>name. name \<notin> fst ` set (take k gl_constants) \<longrightarrow> dict' name = dict name)))"
proof (intro conjI impI)
  show d: "distinct (map fst gl_constants)" by (rule gl_constants_distinct)
  show "length gl_constants = 48" by (simp add: gl_constants_def)
  show "\<exists>dict' w'. add_module_gl_constants dict w = (1, dict', w')
           \<and> events w' =
               events w @ map (\<lambda>(name, v). AddIntConstant name v True) gl_constants
           \<and> py_err w' = py_err w
           \<and> (\<forall>(name, v) \<in> set gl_constants. dict' name = Some v)
           \<and> (\<forall>name. name \<notin> fst ` set gl_constants \<longrightarrow> dict' name = dict name)"
    if "allocs_ok w"
  proof (intro exI conjI)
    show "add_module_gl_constants dict w =
        (1, published gl_constants dict,
         w\<lparr>mem_plan := drop (length gl_constants) (mem_plan w),
           events := events w @ published_events gl_constants\<rparr>)"
      unfolding add_module_gl_constants_def using that by (rule GLC_lines_ok)
    show "\<forall>(name, v) \<in> set gl_constants. published gl_constants dict name = Some v"
      using published_lookup [OF d] by blast
    show "\<forall>name. name \<notin> fst ` set gl_constants \<longrightarrow> published gl_constants dict name = dict name"
      using published_other by blast
  qed (simp_all add: published_events_def)
  show "\<exists>dict' w'. add_module_gl_constants dict w = (0, dict', w')
           \<and> py_err w' = Some (MemoryError, [])
           \<and> events w' =
               events w @
               map (\<lambda>(name, v). AddIntConstant name v True) (take k gl_constants) @
               [AddIntConstant (fst (gl_constants ! k)) (snd (gl_constants ! k)) False]
           \<and> mem_plan w' = rest
           \<and> (\<forall>(name, v) \<in> set (take k gl_constants). dict' name = Some v)
           \<and> (\<forall>name. name \<notin> fst ` set (take k gl_constants) \<longrightarrow> dict' name = dict name)"
    if h: "k < length gl_constants \<and> mem_plan w = replicate k True @ False # rest"
  proof (intro exI conjI)
    show "add_module_gl_constants dict w =
        (0, published (take k gl_constants) dict,
         w\<lparr>mem_plan := rest, py_err := Some (MemoryError, []),
           events := events w @ published_events (take k gl_constants) @
                  [AddIntConstant (fst (gl_constants ! k)) (snd (gl_constants ! k)) False]\<rparr>)"
      unfolding add_module_gl_constants_def using h by (intro GLC_lines_fail) simp_all
    have "distinct (map fst (take k gl_constants))"
      using d by (simp add: take_map [symmetric] distinct_take)
    then show "\<forall>(name, v) \<in> set (take k gl_constants).
        published (take k gl_constants) dict name = Some v"
      using published_lookup by blast
    show "\<forall>name. name \<notin> fst ` set (take k gl_constants) \<longrightarrow>
        published (take k gl_constants) dict name = dict name"
      using published_other by blast
  qed (simp_all add: published_events_def)
qed

theorem constant_registry_population_witness:
  "(\<exists>dict' w'. add_module_gl_constants Map.empty
        ((module_load sim0)\<lparr>mem_plan := [True, True, False, True]\<rparr>) = (0, dict', w')
      \<and> py_err w' = Some (MemoryError, [])
      \<and> events w' = [AddIntConstant ''GL_VERSION'' 0x1F02 True,
                     AddIntConstant ''GL_VENDOR'' 0x1F00 True,
                     AddIntConstant ''GL_SHADING_LANGUAGE_VERSION'' 0x8B8C False]
      \<and> mem_plan w' = [True]
      \<and> dict' ''GL_VENDOR'' = Some 0x1F00
      \<and> dict' ''GL_RENDERER'' = None)
   \<and> (\<exists>dict' w'. add_module_gl_constants Map.empty (module_load sim0) = (1, dict', w')
      \<and> length (events w') = 48 \<and> dict' ''GL_ARRAY_BUFFER'' = Some 0x8892)"
proof -
  have r: "replicate 2 True @ [False, True] = [True, True, False, True]"
    by (simp add: numeral_2_eq_2)
  have a: "\<exists>dict' w'. add_module_gl_constants Map.empty
        ((module_load sim0)\<lparr>mem_plan := [True, True, False, True]\<rparr>) = (0, dict', w')
      \<and> py_err w' = Some (MemoryError, [])
      \<and> events w' = [AddIntConstant ''GL_VERSION'' 0x1F02 True,
                     AddIntConstant ''GL_VENDOR'' 0x1F00 True,
                     AddIntConstant ''GL_SHADING_LANGUAGE_VERSION'' 0x8B8C False]
      \<and> mem_plan w' = [True]
      \<and> dict' ''GL_VENDOR'' = Some 0x1F00
      \<and> dict' ''GL_RENDERER'' = None"
    using constant_registry_population
       [of "(module_load sim0)\<lparr>mem_plan := [True, True, False, True]\<rparr>" Map.empty 2 "[True]"]
    by (simp add: module_load_def gl_constants_def r) (force simp: numeral_2_eq_2)
  have b: "\<exists>dict' w'. add_module_gl_constants Map.empty (module_load sim0) = (1, dict', w')
      \<and> length (events w') = 48 \<and> dict' ''GL_ARRAY_BUFFER'' = Some 0x8892"
    using constant_registry_population [of "module_load sim0" Map.empty 0 "[]"]
    by (simp add: module_load_def allocs_ok_def gl_constants_def) force
  show ?thesis using a b by blast
qed

subsection \<open>The method table: the lock and the error check\<close>




lemma SET_GL_ERR_sets:
  "r_val (fst (gl e glGetError [] (driver w))) \<noteq> GL_NO_ERROR \<Longrightarrow> PyErr_Occurred (SET_GL_ERR e w)"
  by (simp add: SET_GL_ERR_def SET_GL_ERR_switch_def PyErr_SetString_def PyErr_Occurred_def
        split_def Let_def native_fst)



















































































lemmas sim_defs =
  sim_env_def sim0_def sim_gl_def sim_gen_def sim_get_iv_def sim_get_info_log_def reply0_def
  sim_pending_def module_load_def

lemmas run_defs =
  native_def CHECK_ERROR_def SET_GL_ERR_def SET_GL_ERR_switch_def PyErr_SetString_def
  PyErr_Occurred_def Py_RETURN_NONE_def Py_BEGIN_ALLOW_THREADS_def Py_END_ALLOW_THREADS_def
  PyLong_AsUnsignedLong_def PyLong_AsLong_def PyLong_AsVoidPtr_def call_meth_def








text \<open>
  The loop of \<^verbatim>\<open>copy_image_sub_data\<close> leaves the block as soon as one of its reads does.
\<close>

lemma copy_loop_outside:
  fixes i j n off :: "32 word"
  assumes "i \<le> j" and "j < n" and "\<not> unat (4 * j) < length block"
  shows "copy_loop i n off block = None"
  using assms
proof (induction "unat j - unat i" arbitrary: i block)
  case 0
  then have "i = j"
    by (simp add: word_le_nat_alt word_unat_eq_iff)
  then show ?case
    using 0 by (simp add: copy_loop.simps [of j n off block])
next
  case (Suc k)
  then have lt: "unat i < unat j"
    by simp
  have "unat j < 2 ^ 32"
    using unsigned_less [of j] by simp
  then have "unat i + 1 < 2 ^ 32"
    using lt by simp
  then have s: "unat (i + 1) = unat i + 1"
    by (simp add: unat_word_ariths)
  have "i < n"
    using lt Suc.prems(2) by (simp add: word_less_nat_alt)
  have le: "i + 1 \<le> j"
    using lt s by (simp add: word_le_nat_alt)
  have k: "k = unat j - unat (i + 1)"
    using Suc.hyps(2) s by simp
  show ?case
    using \<open>i < n\<close> Suc.hyps(1) [OF k le Suc.prems(2)] Suc.prems(3)
    by (simp add: copy_loop.simps [of i n off block])
qed

text \<open>
  For a texture of 32768 by 32768 texels and one level, \<open>5 * width * height * num_levels\<close>
  wraps around to \<open>2 ^ 30\<close>, which is the size of the block, while the loop runs over
  \<open>2 ^ 30\<close> texels and reads every fourth byte: at \<open>i = 2 ^ 28\<close> it reads outside the
  block, with the lock released. The call returns nothing, the upload is not made and the
  block is not freed.
\<close>

lemma copy_image_sub_data_wrapped_size:
  "call_meth (METH_VARARGS (copy_image_sub_data sim_env))
     [PyLong 1, PyLong 2, PyLong 32768, PyLong 32768, PyLong 1] (module_load sim0) =
   (None,
    (module_load sim0)
      \<lparr>gil_held := False, live := 1,
        events :=
          [MemAlloc 1073741824,
           Native glBindTexture [I32 GL_TEXTURE_2D_ARRAY, I32 1] False reply0,
           Native glGetTexImage
             [I32 GL_TEXTURE_2D_ARRAY, I32 0, I32 GL_RGBA, I32 GL_UNSIGNED_BYTE,
              Buf (replicate 1073741824 (CHR 0x00))] False reply0,
           Native glBindTexture [I32 GL_TEXTURE_2D_ARRAY, I32 2] False reply0,
           Native glPixelStorei [I32 GL_UNPACK_ALIGNMENT, I32 1] False reply0],
        crashed := True\<rparr>)"
proof -
  have "copy_loop 0 1073741824 off (replicate 1073741824 c) = None" for off and c :: char
    by (rule copy_loop_outside [of 0 268435456]) simp_all
  then show ?thesis
    by (simp add: copy_image_sub_data_def run_defs parse_defs sim_defs PyMem_Malloc_def
          py_alloc_def store_def Let_def)
qed





end
